theory Spec2Isabelle
  imports
    Complex_Main
    "HOL-Library.Option_ord"
    "HOL-Library.Char_ord"
    "HOL-Library.List_Lexorder"
    "HOL-Library.Multiset"
begin

section \<open>The aggregation operators used by the queries\<close>

text \<open>
  The source is a script of ten aggregation pipelines. Each pipeline is embedded as a
  function from its input collections (lists of records) to its result, stage by stage.
  The operators (\<open>$sum\<close>, \<open>$avg\<close>, \<open>$max\<close>, \<open>$divide\<close>, \<open>$subtract\<close>, \<open>$round\<close>,
  \<open>$floor\<close>, \<open>$toString\<close>, \<open>$regexMatch\<close>, \<open>$toDouble\<close>, \<open>$toInt\<close>, \<open>$sort\<close>, \<open>$group\<close>,
  \<open>$lookup\<close>, \<open>$unwind\<close>) follow the documented behaviour of the database the script is
  written for.

  Numbers are modelled as exact reals: the database computes in binary floating point,
  and no statement below is about the precision of that arithmetic. A field that may be
  null or missing is an \<open>option\<close>, with \<open>None\<close> for both, except where the pipeline
  treats the two differently (the death rate of query 6). A pipeline that the database
  aborts returns \<open>Inl\<close> of the error.
\<close>

datatype error =
    DivideByZero        \<comment> \<open>\<open>$divide\<close> with numeric operands and a zero divisor\<close>
  | ConversionFailure   \<comment> \<open>\<open>$toDouble\<close> or \<open>$toInt\<close> on a text that is not such a number\<close>
  | ShellTypeError      \<comment> \<open>reading a property of \<open>undefined\<close> in the shell\<close>

text \<open>Evaluating an expression on every document: the first error aborts the stage.\<close>

fun sequence_err :: "(error + 'a) list \<Rightarrow> error + 'a list" where
  "sequence_err [] = Inr []"
| "sequence_err (Inl e # rs) = Inl e"
| "sequence_err (Inr v # rs) =
     (case sequence_err rs of Inl e \<Rightarrow> Inl e | Inr vs \<Rightarrow> Inr (v # vs))"

text \<open>\<open>$sum\<close> adds the numeric values and ignores every other one; on no numeric value it is 0.\<close>

fun mongo_sum :: "real option list \<Rightarrow> real" where
  "mongo_sum [] = 0"
| "mongo_sum (None # vs) = mongo_sum vs"
| "mongo_sum (Some v # vs) = v + mongo_sum vs"

text \<open>The numeric values of a list of field values, in order.\<close>

fun numeric_values :: "real option list \<Rightarrow> real list" where
  "numeric_values [] = []"
| "numeric_values (None # vs) = numeric_values vs"
| "numeric_values (Some v # vs) = v # numeric_values vs"

text \<open>\<open>$avg\<close> averages the numeric values and ignores every other one; on no numeric value
  it is null.\<close>

definition mongo_avg :: "real option list \<Rightarrow> real option" where
  "mongo_avg vs =
     (case numeric_values vs of
        [] \<Rightarrow> None
      | n # ns \<Rightarrow> Some (sum_list (n # ns) / real (length (n # ns))))"

text \<open>\<open>$max\<close> is the greatest numeric value, null when there is none.\<close>

fun mongo_max :: "real option list \<Rightarrow> real option" where
  "mongo_max [] = None"
| "mongo_max (None # vs) = mongo_max vs"
| "mongo_max (Some v # vs) =
     (case mongo_max vs of None \<Rightarrow> Some v | Some m \<Rightarrow> Some (max v m))"

text \<open>\<open>$subtract\<close> and \<open>$multiply\<close> are null as soon as one operand is null or missing;
  \<open>$abs\<close> of null is null.\<close>

fun subtract :: "real option \<Rightarrow> real option \<Rightarrow> real option" where
  "subtract (Some a) (Some b) = Some (a - b)"
| "subtract _ _ = None"

fun multiply :: "real option \<Rightarrow> real option \<Rightarrow> real option" where
  "multiply (Some a) (Some b) = Some (a * b)"
| "multiply _ _ = None"

fun mabs :: "real option \<Rightarrow> real option" where
  "mabs (Some a) = Some \<bar>a\<bar>"
| "mabs None = None"

text \<open>\<open>$divide\<close>: with two numbers, a zero divisor aborts the pipeline (\<open>can't $divide by
  zero\<close>); otherwise, when an operand is null or missing, the result is null.\<close>

fun divide :: "real option \<Rightarrow> real option \<Rightarrow> error + real option" where
  "divide (Some a) (Some b) = (if b = 0 then Inl DivideByZero else Inr (Some (a / b)))"
| "divide _ _ = Inr None"

text \<open>A numeric field of a document, where a missing field and a null one must be told
  apart. As the operand of an arithmetic operator both count as null.\<close>

datatype field = Missing | Null | Number real

fun numeric :: "field \<Rightarrow> real option" where
  "numeric (Number x) = Some x"
| "numeric Null = None"
| "numeric Missing = None"

text \<open>\<open>$round\<close> to \<open>n\<close> decimal places; a value halfway between two candidates goes to the
  even one.\<close>

definition round_half_even :: "real \<Rightarrow> int" where
  "round_half_even x =
     (let f = \<lfloor>x\<rfloor>; d = x - of_int f
      in if d < 1 / 2 then f else if 1 / 2 < d then f + 1 else if even f then f else f + 1)"

definition mround :: "real \<Rightarrow> nat \<Rightarrow> real" where
  "mround x n = of_int (round_half_even (x * 10 ^ n)) / 10 ^ n"

text \<open>\<open>$round\<close> as an expression: null stays null.\<close>

fun round_to :: "real option \<Rightarrow> nat \<Rightarrow> real option" where
  "round_to (Some x) n = Some (mround x n)"
| "round_to None n = None"

text \<open>A comparison \<open>{ field: { $gt: t } }\<close> of a \<open>$match\<close> stage: a null or missing field
  matches no number, and a null bound matches nothing.\<close>

fun match_gt :: "real option \<Rightarrow> real option \<Rightarrow> bool" where
  "match_gt (Some a) (Some t) = (t < a)"
| "match_gt _ _ = False"

text \<open>\<open>$sort\<close> with direction \<open>-1\<close>: descending by the key, null below every number.
  The database leaves the order of documents with equal keys open; here they keep their
  input order.\<close>

definition sort_desc :: "('a \<Rightarrow> 'k::linorder) \<Rightarrow> 'a list \<Rightarrow> 'a list" where
  "sort_desc f xs = rev (sort_key f (rev xs))"

text \<open>\<open>$group\<close>: one group per distinct key, holding the documents with that key in input
  order. The database promises no order of the groups; here they come in the order of
  the keys' last occurrences.\<close>

definition group_by :: "('a \<Rightarrow> 'k) \<Rightarrow> 'a list \<Rightarrow> ('k \<times> 'a list) list" where
  "group_by f xs = map (\<lambda>k. (k, filter (\<lambda>x. f x = k) xs)) (remdups (map f xs))"

text \<open>\<open>$toString\<close> of a number with an integral value: its decimal digits, with a minus
  sign when negative.\<close>

fun show_nat :: "nat \<Rightarrow> string" where
  "show_nat n =
     (if n < 10 then [''0123456789'' ! n]
      else show_nat (n div 10) @ [''0123456789'' ! (n mod 10)])"

declare show_nat.simps [simp del]

definition toString :: "int \<Rightarrow> string" where
  "toString i = (if i < 0 then CHR ''-'' # show_nat (nat (- i)) else show_nat (nat i))"

section \<open>The collections\<close>

text \<open>\<open>power_plant_database_global\<close>\<close>

record power_plant =
  country :: string
  country_long :: string
  name :: string
  primary_fuel :: string
  capacity_mw :: "real option"
  latitude :: "real option"
  longitude :: "real option"
  generation_gwh_2017 :: "real option"
  estimated_generation_gwh_2017 :: "real option"

text \<open>\<open>world_nuclear_energy_generation\<close>\<close>

record nuclear_generation =
  Entity :: string
  Year :: int
  electricity_from_nuclear_twh :: "real option"
  share_of_electricity_pct :: "real option"

text \<open>\<open>rates_death_from_energy_production_per_twh\<close>; \<open>deaths_per_twh\<close> is the field
  \<open>Deaths per TWh of electricity production\<close>.\<close>

record death_rate =
  source :: string
  deaths_per_twh :: field

text \<open>\<open>uranium_production_summary_us\<close>; \<open>mine_production\<close> is the field \<open>Mine production of
  uranium\<close>, \<open>employment\<close> the field \<open>Employment\<close>, both numbers stored as text.\<close>

record uranium_production =
  production_year :: int
  mine_production :: string
  employment :: string

text \<open>\<open>us_nuclear_generating_statistics_1971_2021\<close>; \<open>nuclear_generation_mwh\<close> is the field
  \<open>NUCLEAR GENERATION\<close>.\<close>

record us_nuclear_stats =
  YEAR :: int
  nuclear_generation_mwh :: "real option"

text \<open>\<open>uranium_purchase_price_us\<close>; the fields \<open>Delivery year\<close> and \<open>Total purchased\<close>.\<close>

record uranium_price =
  delivery_year :: int
  total_purchased :: "real option"

section \<open>Query 1: plants and capacity by fuel\<close>

record query1_row =
  q1_id :: string
  q1_number_of_plants :: nat
  q1_total_capacity_mw :: real

text \<open>The \<open>$group\<close> stage.\<close>

definition query1_group :: "power_plant list \<Rightarrow> query1_row list" where
  "query1_group db =
     map (\<lambda>g. \<lparr> q1_id = fst g,
                q1_number_of_plants = length (snd g),
                q1_total_capacity_mw = mongo_sum (map capacity_mw (snd g)) \<rparr>)
       (group_by primary_fuel db)"

text \<open>The \<open>$project\<close> stage rounds the total to one decimal place.\<close>

definition query1_project :: "query1_row \<Rightarrow> query1_row" where
  "query1_project r = r\<lparr> q1_total_capacity_mw := mround (q1_total_capacity_mw r) 1 \<rparr>"

definition query1 :: "power_plant list \<Rightarrow> query1_row list" where
  "query1 db = sort_desc q1_total_capacity_mw (map query1_project (query1_group db))"

section \<open>Query 2: nuclear capacity by country\<close>

record query2_row =
  q2_id :: string
  q2_total_nuclear_capacity_mw :: real

definition query2_match :: "power_plant list \<Rightarrow> power_plant list" where
  "query2_match db = filter (\<lambda>p. primary_fuel p = ''Nuclear'') db"

definition query2_group :: "power_plant list \<Rightarrow> query2_row list" where
  "query2_group db =
     map (\<lambda>g. \<lparr> q2_id = fst g,
                q2_total_nuclear_capacity_mw = mongo_sum (map capacity_mw (snd g)) \<rparr>)
       (group_by country_long (query2_match db))"

definition query2_project :: "query2_row \<Rightarrow> query2_row" where
  "query2_project r =
     r\<lparr> q2_total_nuclear_capacity_mw := mround (q2_total_nuclear_capacity_mw r) 2 \<rparr>"

definition query2 :: "power_plant list \<Rightarrow> query2_row list" where
  "query2 db =
     take 10 (sort_desc q2_total_nuclear_capacity_mw (map query2_project (query2_group db)))"

section \<open>Query 3: countries above the global average share in 2023\<close>

text \<open>Step 1. The pipeline groups the rows of 2023 into one document; the shell then reads
  \<open>.toArray()[0].avg_share\<close>. With no row of 2023 the array is empty, its element 0 is
  \<open>undefined\<close>, and reading \<open>avg_share\<close> from it throws.\<close>

definition globalAvg :: "nuclear_generation list \<Rightarrow> error + real option" where
  "globalAvg db =
     (case filter (\<lambda>r. Year r = 2023) db of
        [] \<Rightarrow> Inl ShellTypeError
      | r # rs \<Rightarrow> Inr (mongo_avg (map share_of_electricity_pct (r # rs))))"

record query3_row =
  q3_id :: string
  q3_avg_nuclear_share :: "real option"

text \<open>Step 2, the \<open>$match\<close> on the year and the \<open>$group\<close> by entity.\<close>

definition query3_group :: "nuclear_generation list \<Rightarrow> query3_row list" where
  "query3_group db =
     map (\<lambda>g. \<lparr> q3_id = fst g,
                q3_avg_nuclear_share = mongo_avg (map share_of_electricity_pct (snd g)) \<rparr>)
       (group_by Entity (filter (\<lambda>r. Year r = 2023) db))"

text \<open>The \<open>$match\<close> against the threshold, on the average as grouped.\<close>

definition query3_match :: "real option \<Rightarrow> query3_row list \<Rightarrow> query3_row list" where
  "query3_match t rows = filter (\<lambda>r. match_gt (q3_avg_nuclear_share r) t) rows"

text \<open>The \<open>$project\<close> stage rounds the average to two decimal places.\<close>

definition query3_project :: "query3_row \<Rightarrow> query3_row" where
  "query3_project r = r\<lparr> q3_avg_nuclear_share := round_to (q3_avg_nuclear_share r) 2 \<rparr>"

definition query3 :: "nuclear_generation list \<Rightarrow> error + query3_row list" where
  "query3 db =
     (case globalAvg db of
        Inl e \<Rightarrow> Inl e
      | Inr t \<Rightarrow>
          Inr (sort_desc q3_avg_nuclear_share
                 (map query3_project (query3_match t (query3_group db)))))"

section \<open>Query 4: the year of the largest increase\<close>

text \<open>Step 1: the years after 2015 of the entity \<open>Canada\<close>.\<close>

definition query4_match :: "nuclear_generation list \<Rightarrow> nuclear_generation list" where
  "query4_match db = filter (\<lambda>r. 2015 < Year r \<and> Entity r = ''Canada'') db"

text \<open>Step 3, \<open>$shift\<close> by \<open>-1\<close> within one partition sorted by year: each document is
  paired with the generation of the document before it, the first one with null.\<close>

definition shift_prev :: "nuclear_generation list \<Rightarrow> (nuclear_generation \<times> real option) list" where
  "shift_prev part = zip part (None # map electricity_from_nuclear_twh part)"

text \<open>Steps 2 and 3: the sort by year, then \<open>$setWindowFields\<close> partitioned by entity.\<close>

definition query4_window ::
  "nuclear_generation list \<Rightarrow> (nuclear_generation \<times> real option) list" where
  "query4_window rows =
     concat (map (\<lambda>g. shift_prev (sort_key Year (snd g))) (group_by Entity (sort_key Year rows)))"

record query4_doc =
  q4_doc :: nuclear_generation
  prev_year_generation :: "real option"
  generation_difference :: "real option"

text \<open>Step 4: the difference to the previous document's generation.\<close>

definition query4_add_fields :: "nuclear_generation \<times> real option \<Rightarrow> query4_doc" where
  "query4_add_fields w =
     \<lparr> q4_doc = fst w,
       prev_year_generation = snd w,
       generation_difference = subtract (electricity_from_nuclear_twh (fst w)) (snd w) \<rparr>"

text \<open>Step 5: the positive differences only.\<close>

definition query4_positive :: "query4_doc list \<Rightarrow> query4_doc list" where
  "query4_positive ds = filter (\<lambda>d. match_gt (generation_difference d) (Some 0)) ds"

text \<open>Step 6: per entity the maximum of the differences and all documents of the group;
  then the documents whose difference equals that maximum, unwound.\<close>

definition query4_argmax :: "query4_doc list \<Rightarrow> query4_doc list" where
  "query4_argmax ds =
     concat (map (\<lambda>g. filter (\<lambda>d. generation_difference d
                                       = mongo_max (map generation_difference (snd g))) (snd g))
               (group_by (\<lambda>d. Entity (q4_doc d)) ds))"

record query4_row =
  q4_Entity :: string
  q4_Year :: int
  q4_total_nuclear_generation :: "real option"
  q4_generation_difference :: "real option"

text \<open>Step 7.\<close>

definition query4_project :: "query4_doc \<Rightarrow> query4_row" where
  "query4_project d =
     \<lparr> q4_Entity = Entity (q4_doc d),
       q4_Year = Year (q4_doc d),
       q4_total_nuclear_generation = electricity_from_nuclear_twh (q4_doc d),
       q4_generation_difference = generation_difference d \<rparr>"

definition query4 :: "nuclear_generation list \<Rightarrow> query4_row list" where
  "query4 db =
     map query4_project
       (query4_argmax (query4_positive (map query4_add_fields (query4_window (query4_match db)))))"

section \<open>Query 5: capacity by 5-degree band\<close>

text \<open>The sub-expression \<open>$multiply [ $floor ($divide [v, 5]), 5 ]\<close>, which the source writes
  out for both ends of each label.\<close>

definition band_lower :: "real \<Rightarrow> int" where
  "band_lower v = \<lfloor>v / 5\<rfloor> * 5"

text \<open>The degree sign and the en dash of the labels, as the bytes of their UTF-8 encoding.\<close>

definition degree_sign :: string where
  "degree_sign = [CHR 0xC2, CHR 0xB0]"

definition en_dash :: string where
  "en_dash = [CHR 0xE2, CHR 0x80, CHR 0x93]"

definition band :: "real \<Rightarrow> string" where
  "band v =
     toString (band_lower v) @ (degree_sign @ en_dash) @ toString (band_lower v + 5) @ degree_sign"

text \<open>Step 1: the nuclear plants with both coordinates.\<close>

definition query5_match :: "power_plant list \<Rightarrow> power_plant list" where
  "query5_match db =
     filter (\<lambda>p. primary_fuel p = ''Nuclear'' \<and> latitude p \<noteq> None \<and> longitude p \<noteq> None) db"

text \<open>Step 2: the two band labels of a plant. On a null coordinate every operator of the
  expression returns null, and so does the label; step 1 lets no such plant through.\<close>

definition lat_band :: "power_plant \<Rightarrow> string option" where
  "lat_band p = map_option band (latitude p)"

definition lon_band :: "power_plant \<Rightarrow> string option" where
  "lon_band p = map_option band (longitude p)"

record query5_row =
  q5_lat_band :: "string option"
  q5_lon_band :: "string option"
  q5_plant_count :: nat
  q5_total_capacity_mw :: real
  q5_countries_in_band :: string

text \<open>Step 4: the \<open>$reduce\<close> that joins the sorted country names with a comma and a space.\<close>

definition join_step :: "string \<Rightarrow> string \<Rightarrow> string" where
  "join_step val this = val @ (if val = '''' then '''' else '', '') @ this"

definition join_countries :: "string list \<Rightarrow> string" where
  "join_countries cs = foldl join_step '''' (sort cs)"

text \<open>Steps 3 to 5 for one group.\<close>

definition query5_group ::
  "(string option \<times> string option) \<times> power_plant list \<Rightarrow> query5_row" where
  "query5_group g =
     \<lparr> q5_lat_band = fst (fst g),
       q5_lon_band = snd (fst g),
       q5_plant_count = length (snd g),
       q5_total_capacity_mw = mongo_sum (map capacity_mw (snd g)),
       q5_countries_in_band = join_countries (remdups (map country_long (snd g))) \<rparr>"

definition query5 :: "power_plant list \<Rightarrow> query5_row list" where
  "query5 db =
     sort_desc q5_total_capacity_mw
       (map query5_group (group_by (\<lambda>p. (lat_band p, lon_band p)) (query5_match db)))"

section \<open>Query 6: how much more dangerous than nuclear\<close>

text \<open>Step 1, the facet \<open>nuclear\<close>: the field \<open>nuclear_deaths\<close> of its documents, one per
  document of the entity \<open>Nuclear\<close>; a document without a death rate gives a document
  without \<open>nuclear_deaths\<close>.\<close>

definition query6_nuclear :: "death_rate list \<Rightarrow> field list" where
  "query6_nuclear db = map deaths_per_twh (filter (\<lambda>r. source r = ''Nuclear'') db)"

text \<open>The facet \<open>others\<close>.\<close>

definition query6_others :: "death_rate list \<Rightarrow> death_rate list" where
  "query6_others db = filter (\<lambda>r. source r \<noteq> ''Nuclear'') db"

text \<open>\<open>$arrayElemAt [ "$nuclear.nuclear_deaths", 0 ]\<close>. The path \<open>$nuclear.nuclear_deaths\<close>
  is the array of the \<open>nuclear_deaths\<close> of the documents that have the field, null
  included; its element 0 is the first of them, and past the end of the array the result
  is missing.\<close>

definition first_nuclear_deaths :: "field list \<Rightarrow> field" where
  "first_nuclear_deaths ds =
     (case filter (\<lambda>d. d \<noteq> Missing) ds of [] \<Rightarrow> Missing | d # rest \<Rightarrow> d)"

record query6_row =
  q6_nuclear :: string
  q6_nuclear_deaths :: field
  q6_other_source :: string
  q6_other_deaths :: field
  q6_times_more_dangerous :: "real option"

text \<open>Step 2: the body of the \<open>$map\<close> for one other source.\<close>

definition query6_combine :: "field \<Rightarrow> death_rate \<Rightarrow> error + query6_row" where
  "query6_combine nd ot =
     (case divide (numeric (deaths_per_twh ot)) (numeric nd) of
        Inl e \<Rightarrow> Inl e
      | Inr q \<Rightarrow>
          Inr \<lparr> q6_nuclear = ''Nuclear'',
                q6_nuclear_deaths = nd,
                q6_other_source = source ot,
                q6_other_deaths = deaths_per_twh ot,
                q6_times_more_dangerous = q \<rparr>)"

definition query6 :: "death_rate list \<Rightarrow> error + query6_row list" where
  "query6 db =
     (case sequence_err
             (map (query6_combine (first_nuclear_deaths (query6_nuclear db))) (query6_others db)) of
        Inl e \<Rightarrow> Inl e
      | Inr rows \<Rightarrow> Inr (sort_desc q6_times_more_dangerous rows))"

section \<open>Query 7: nuclear against solar by country\<close>

record query7_branch =
  b_country :: string
  b_country_long :: string
  b_gwh :: real
  b_deaths :: real

text \<open>The first two stages of a facet branch: the plants of one fuel, grouped by country
  code and country name, with the sum of the estimated generation.\<close>

definition query7_group :: "string \<Rightarrow> power_plant list \<Rightarrow> ((string \<times> string) \<times> real) list" where
  "query7_group fuel db =
     map (\<lambda>g. (fst g, mongo_sum (map estimated_generation_gwh_2017 (snd g))))
       (group_by (\<lambda>p. (country p, country_long p)) (filter (\<lambda>p. primary_fuel p = fuel) db))"

text \<open>The facet \<open>nuclear\<close>: the groups with a sum above 0, with the deaths at 0.07 per TWh.\<close>

definition query7_nuclear :: "power_plant list \<Rightarrow> query7_branch list" where
  "query7_nuclear db =
     map (\<lambda>g. \<lparr> b_country = fst (fst g), b_country_long = snd (fst g),
                b_gwh = snd g, b_deaths = snd g / 1000 * (7 / 100) \<rparr>)
       (filter (\<lambda>g. 0 < snd g) (query7_group ''Nuclear'' db))"

text \<open>The facet \<open>solar\<close>: the groups with a sum above 0, with the deaths at 0.02 per TWh.\<close>

definition query7_solar :: "power_plant list \<Rightarrow> query7_branch list" where
  "query7_solar db =
     map (\<lambda>g. \<lparr> b_country = fst (fst g), b_country_long = snd (fst g),
                b_gwh = snd g, b_deaths = snd g / 1000 * (2 / 100) \<rparr>)
       (filter (\<lambda>g. 0 < snd g) (query7_group ''Solar'' db))"

record query7_row =
  q7_country :: string
  q7_country_long :: string
  q7_nuclear_gwh :: real
  q7_solar_gwh :: "real option"
  q7_nuclear_deaths :: real
  q7_solar_deaths :: "real option"

text \<open>\<open>$arrayElemAt [ $filter ..., 0 ]\<close>: the first solar document with the country code of the
  nuclear one; missing when there is none.\<close>

definition first_solar :: "query7_branch list \<Rightarrow> query7_branch \<Rightarrow> query7_branch option" where
  "first_solar solar n =
     (case filter (\<lambda>s. b_country s = b_country n) solar of [] \<Rightarrow> None | s # ss \<Rightarrow> Some s)"

text \<open>\<open>$mergeObjects\<close> of the nuclear document and that solar document, then step 4. A missing
  operand is skipped, which leaves the nuclear document alone; otherwise the fields of the
  solar document are added, its \<open>_id\<close> replacing the nuclear one.\<close>

fun query7_merge :: "query7_branch \<Rightarrow> query7_branch option \<Rightarrow> query7_row" where
  "query7_merge n None =
     \<lparr> q7_country = b_country n, q7_country_long = b_country_long n,
       q7_nuclear_gwh = b_gwh n, q7_solar_gwh = None,
       q7_nuclear_deaths = b_deaths n, q7_solar_deaths = None \<rparr>"
| "query7_merge n (Some s) =
     \<lparr> q7_country = b_country s, q7_country_long = b_country_long s,
       q7_nuclear_gwh = b_gwh n, q7_solar_gwh = Some (b_gwh s),
       q7_nuclear_deaths = b_deaths n, q7_solar_deaths = Some (b_deaths s) \<rparr>"

text \<open>Step 2: the \<open>$map\<close> over the nuclear branch.\<close>

definition query7_combined :: "query7_branch list \<Rightarrow> query7_branch list \<Rightarrow> query7_row list" where
  "query7_combined nuclear solar = map (\<lambda>n. query7_merge n (first_solar solar n)) nuclear"

definition query7 :: "power_plant list \<Rightarrow> query7_row list" where
  "query7 db = sort_desc q7_nuclear_gwh (query7_combined (query7_nuclear db) (query7_solar db))"

section \<open>Query 8: real against estimated generation\<close>

definition query8_match :: "power_plant list \<Rightarrow> power_plant list" where
  "query8_match db =
     filter (\<lambda>p. primary_fuel p = ''Nuclear'' \<and> generation_gwh_2017 p \<noteq> None
                 \<and> estimated_generation_gwh_2017 p \<noteq> None) db"

record query8_row =
  q8_country :: string
  q8_name :: string
  q8_real_generation :: "real option"
  q8_estimated_generation :: "real option"
  q8_absolute_error :: "real option"
  q8_percent_error :: "real option"

text \<open>Steps 2 and 3 for one plant.\<close>

definition query8_add_fields :: "power_plant \<Rightarrow> error + query8_row" where
  "query8_add_fields p =
     (case divide (mabs (subtract (generation_gwh_2017 p) (estimated_generation_gwh_2017 p)))
                  (generation_gwh_2017 p) of
        Inl e \<Rightarrow> Inl e
      | Inr q \<Rightarrow>
          Inr \<lparr> q8_country = country p,
                q8_name = name p,
                q8_real_generation = generation_gwh_2017 p,
                q8_estimated_generation = estimated_generation_gwh_2017 p,
                q8_absolute_error =
                  round_to (mabs (subtract (generation_gwh_2017 p)
                                           (estimated_generation_gwh_2017 p))) 2,
                q8_percent_error = round_to (multiply q (Some 100)) 2 \<rparr>)"

definition query8 :: "power_plant list \<Rightarrow> error + query8_row list" where
  "query8 db =
     (case sequence_err (map query8_add_fields (query8_match db)) of
        Inl e \<Rightarrow> Inl e
      | Inr rows \<Rightarrow> Inr (sort_desc q8_percent_error rows))"

section \<open>Query 9: uranium production against nuclear generation\<close>

text \<open>\<open>$lookup\<close> followed by \<open>$unwind\<close>: one document per pair of a left document and a right
  document with the same key, none for a left document without a partner.\<close>

definition lookup_unwind :: "('a \<Rightarrow> int) \<Rightarrow> ('b \<Rightarrow> int) \<Rightarrow> 'a list \<Rightarrow> 'b list \<Rightarrow> ('a \<times> 'b) list" where
  "lookup_unwind localField foreignField left right =
     concat (map (\<lambda>l. map (\<lambda>r. (l, r)) (filter (\<lambda>r. foreignField r = localField l) right)) left)"

definition is_digit :: "char \<Rightarrow> bool" where
  "is_digit c = (CHR ''0'' \<le> c \<and> c \<le> CHR ''9'')"

text \<open>A pattern \<open>/^[class]+$/\<close> as \<open>$regexMatch\<close> applies it: \<open>^\<close> is the start of the text, and
  \<open>$\<close> is its end or the place before a line feed that ends it. So the pattern matches a
  text of one or more characters of the class, and also such a text followed by one final
  line feed.\<close>

definition anchored_plus :: "(char \<Rightarrow> bool) \<Rightarrow> string \<Rightarrow> bool" where
  "anchored_plus cls s =
     ((s \<noteq> [] \<and> list_all cls s)
      \<or> (s \<noteq> [] \<and> last s = CHR 0x0A \<and> butlast s \<noteq> [] \<and> list_all cls (butlast s)))"

text \<open>The pattern \<open>/^[0-9.]+$/\<close>: digits and dots.\<close>

definition matches_digits_dots :: "string \<Rightarrow> bool" where
  "matches_digits_dots s = anchored_plus (\<lambda>c. is_digit c \<or> c = CHR ''.'') s"

text \<open>The pattern \<open>/^[0-9]+$/\<close>: digits.\<close>

definition matches_digits :: "string \<Rightarrow> bool" where
  "matches_digits s = anchored_plus is_digit s"

text \<open>The value of a text of decimal digits.\<close>

definition digits_value :: "string \<Rightarrow> int" where
  "digits_value s = foldl (\<lambda>a c. 10 * a + (of_char c - 48)) 0 s"

text \<open>\<open>$toDouble\<close> of a text. Only texts of digits and dots, with a final line feed or
  without, reach it behind the pattern, so signs and exponents are left out: the conversion
  succeeds on digits with at most one dot among them and at least one digit, and fails on
  any other text. The range and the precision of a double are not modelled.\<close>

definition toDouble :: "string \<Rightarrow> error + real" where
  "toDouble s =
     (let ip = takeWhile (\<lambda>c. c \<noteq> CHR ''.'') s;
          fp = drop 1 (dropWhile (\<lambda>c. c \<noteq> CHR ''.'') s)
      in if list_all is_digit ip \<and> list_all is_digit fp \<and> ip @ fp \<noteq> []
         then Inr (real_of_int (digits_value ip) + real_of_int (digits_value fp) / 10 ^ length fp)
         else Inl ConversionFailure)"

text \<open>\<open>$toInt\<close> of a text: a decimal integer that fits 32 bits, or the conversion fails.\<close>

definition toInt :: "string \<Rightarrow> error + int" where
  "toInt s =
     (if s \<noteq> [] \<and> list_all is_digit s \<and> digits_value s \<le> 2147483647
      then Inr (digits_value s)
      else Inl ConversionFailure)"

text \<open>The two guarded conversions of the \<open>$project\<close> stage; \<open>$cond\<close> evaluates only the
  branch it takes.\<close>

definition production_million_lbs :: "string \<Rightarrow> error + real option" where
  "production_million_lbs s =
     (if matches_digits_dots s
      then (case toDouble s of Inl e \<Rightarrow> Inl e | Inr v \<Rightarrow> Inr (Some v))
      else Inr None)"

definition employees :: "string \<Rightarrow> error + int option" where
  "employees s =
     (if matches_digits s
      then (case toInt s of Inl e \<Rightarrow> Inl e | Inr v \<Rightarrow> Inr (Some v))
      else Inr None)"

record query9_row =
  q9_Year :: int
  q9_production_million_lbs :: "real option"
  q9_employees :: "int option"
  q9_generation_mwh :: "real option"

definition query9_project :: "uranium_production \<times> us_nuclear_stats \<Rightarrow> error + query9_row" where
  "query9_project d =
     (case production_million_lbs (mine_production (fst d)) of
        Inl e \<Rightarrow> Inl e
      | Inr pr \<Rightarrow>
          (case employees (employment (fst d)) of
             Inl e \<Rightarrow> Inl e
           | Inr emp \<Rightarrow>
               Inr \<lparr> q9_Year = production_year (fst d),
                     q9_production_million_lbs = pr,
                     q9_employees = emp,
                     q9_generation_mwh = nuclear_generation_mwh (snd d) \<rparr>))"

definition query9 :: "uranium_production list \<Rightarrow> us_nuclear_stats list \<Rightarrow> error + query9_row list" where
  "query9 production stats =
     (case sequence_err (map query9_project (lookup_unwind production_year YEAR production stats)) of
        Inl e \<Rightarrow> Inl e
      | Inr rows \<Rightarrow> Inr (sort_desc q9_Year rows))"

section \<open>Query 10: the cost of the uranium\<close>

text \<open>Step 3: both the generation and the price are present.\<close>

definition query10_match ::
  "(us_nuclear_stats \<times> uranium_price) list \<Rightarrow> (us_nuclear_stats \<times> uranium_price) list" where
  "query10_match ds =
     filter (\<lambda>d. nuclear_generation_mwh (fst d) \<noteq> None \<and> total_purchased (snd d) \<noteq> None) ds"

record query10_row =
  q10_year :: int
  q10_nuclear_generation :: "real option"
  q10_uranium_needed_pounds :: "real option"
  q10_uranium_price_usd_per_lb :: "real option"
  q10_total_uranium_cost_usd :: "real option"

text \<open>Step 4; 0.007 pounds of uranium per MWh.\<close>

definition query10_project :: "us_nuclear_stats \<times> uranium_price \<Rightarrow> query10_row" where
  "query10_project d =
     \<lparr> q10_year = YEAR (fst d),
       q10_nuclear_generation = nuclear_generation_mwh (fst d),
       q10_uranium_needed_pounds =
         round_to (multiply (nuclear_generation_mwh (fst d)) (Some (7 / 1000))) 2,
       q10_uranium_price_usd_per_lb = total_purchased (snd d),
       q10_total_uranium_cost_usd =
         round_to (multiply (multiply (nuclear_generation_mwh (fst d)) (Some (7 / 1000)))
                            (total_purchased (snd d))) 2 \<rparr>"

definition query10 :: "us_nuclear_stats list \<Rightarrow> uranium_price list \<Rightarrow> query10_row list" where
  "query10 stats prices =
     sort_desc q10_year
       (map query10_project (query10_match (lookup_unwind YEAR delivery_year stats prices)))"

section \<open>Example collections\<close>

text \<open>Small collections on which the statements below are evaluated.\<close>

definition plant :: "string \<Rightarrow> string \<Rightarrow> string \<Rightarrow> real option \<Rightarrow> real option \<Rightarrow> real option \<Rightarrow> power_plant" where
  "plant c cl fuel cap gen est =
     \<lparr> country = c, country_long = cl, name = ''Unit 1'', primary_fuel = fuel, capacity_mw = cap,
       latitude = Some (- 3), longitude = Some 12, generation_gwh_2017 = gen,
       estimated_generation_gwh_2017 = est \<rparr>"

definition rates_without_nuclear :: "death_rate list" where
  "rates_without_nuclear = [\<lparr> source = ''Coal'', deaths_per_twh = Number 24 \<rparr>]"

definition rates_zero_nuclear :: "death_rate list" where
  "rates_zero_nuclear =
     [\<lparr> source = ''Nuclear'', deaths_per_twh = Number 0 \<rparr>,
      \<lparr> source = ''Coal'', deaths_per_twh = Number 24 \<rparr>]"

definition plants_zero_generation :: "power_plant list" where
  "plants_zero_generation = [plant ''FRA'' ''France'' ''Nuclear'' (Some 900) (Some 0) (Some 5)]"

definition plants_missing_generation :: "power_plant list" where
  "plants_missing_generation =
     [plant ''FRA'' ''France'' ''Nuclear'' (Some 900) None (Some 5),
      plant ''FRA'' ''France'' ''Nuclear'' (Some 900) (Some 4) (Some 5)]"

definition production_2000 :: "string \<Rightarrow> string \<Rightarrow> uranium_production" where
  "production_2000 mine emp =
     \<lparr> production_year = 2000, mine_production = mine, employment = emp \<rparr>"

definition stats_2000 :: "us_nuclear_stats list" where
  "stats_2000 = [\<lparr> YEAR = 2000, nuclear_generation_mwh = Some 753893 \<rparr>]"

definition plants_three_countries :: "power_plant list" where
  "plants_three_countries =
     [plant ''DEU'' ''Germany'' ''Nuclear'' (Some 1400) None (Some 50),
      plant ''FRA'' ''France'' ''Nuclear'' (Some 900) None (Some 60),
      plant ''FRA'' ''France'' ''Nuclear'' (Some 900) None (Some 40),
      plant ''FRA'' ''France'' ''Solar'' (Some 10) None (Some 10),
      plant ''ESP'' ''Spain'' ''Solar'' (Some 20) None (Some 20),
      plant ''ESP'' ''Spain'' ''Nuclear'' (Some 1000) None None]"


definition plants_with_null_capacity :: "power_plant list" where
  "plants_with_null_capacity =
     [plant ''FRA'' ''France'' ''Nuclear'' (Some (45013 / 50)) None None,
      plant ''FRA'' ''France'' ''Nuclear'' None None None,
      plant ''FRA'' ''France'' ''Coal'' (Some (1 / 25)) None None,
      plant ''DEU'' ''Germany'' ''Nuclear'' (Some 1400) None None,
      plant ''DEU'' ''Germany'' ''Gas'' None None None]"

definition generation_row :: "string \<Rightarrow> int \<Rightarrow> real option \<Rightarrow> real option \<Rightarrow> nuclear_generation" where
  "generation_row e y twh share =
     \<lparr> Entity = e, Year = y, electricity_from_nuclear_twh = twh, share_of_electricity_pct = share \<rparr>"

definition shares_near_average :: "nuclear_generation list" where
  "shares_near_average =
     [generation_row ''Finland'' 2023 (Some 33) (Some (10004 / 1000)),
      generation_row ''Sweden'' 2023 (Some 47) (Some (9998 / 1000)),
      generation_row ''Italy'' 2023 (Some 0) None,
      generation_row ''Finland'' 2022 (Some 24) (Some 35)]"

definition canada_with_tie :: "nuclear_generation list" where
  "canada_with_tie =
     [generation_row ''Canada'' 2015 (Some 1) None,
      generation_row ''Canada'' 2018 (Some 25) None,
      generation_row ''France'' 2017 (Some 50) None,
      generation_row ''Canada'' 2016 (Some 10) None,
      generation_row ''Canada'' 2017 (Some 20) None,
      generation_row ''France'' 2016 (Some 10) None,
      generation_row ''Canada'' 2019 (Some 35) None,
      generation_row ''Canada'' 2020 (Some 30) None]"

definition stats_three_years :: "us_nuclear_stats list" where
  "stats_three_years =
     [\<lparr> YEAR = 2000, nuclear_generation_mwh = Some 1000 \<rparr>,
      \<lparr> YEAR = 2001, nuclear_generation_mwh = Some 1 \<rparr>,
      \<lparr> YEAR = 2002, nuclear_generation_mwh = None \<rparr>]"

definition prices_four_years :: "uranium_price list" where
  "prices_four_years =
     [\<lparr> delivery_year = 1999, total_purchased = Some 3 \<rparr>,
      \<lparr> delivery_year = 2000, total_purchased = Some 100 \<rparr>,
      \<lparr> delivery_year = 2001, total_purchased = Some 100 \<rparr>,
      \<lparr> delivery_year = 2002, total_purchased = Some 50 \<rparr>]"



section \<open>Reference values\<close>

text \<open>The values the pipelines are compared with, written directly over the collections.\<close>

text \<open>The sum of the estimated generation over the plants of one fuel in one country (code
  and name), counting the plants that have an estimate.\<close>

definition estimated_sum :: "string \<Rightarrow> string \<Rightarrow> string \<Rightarrow> power_plant list \<Rightarrow> real" where
  "estimated_sum fuel c cl db =
     (\<Sum>p\<leftarrow>filter (\<lambda>p. primary_fuel p = fuel \<and> country p = c \<and> country_long p = cl
                        \<and> estimated_generation_gwh_2017 p \<noteq> None) db.
        the (estimated_generation_gwh_2017 p))"

text \<open>The sum of the capacity over the plants that satisfy \<open>P\<close> and have a capacity.\<close>

definition capacity_sum :: "(power_plant \<Rightarrow> bool) \<Rightarrow> power_plant list \<Rightarrow> real" where
  "capacity_sum P db = (\<Sum>p\<leftarrow>filter (\<lambda>p. P p \<and> capacity_mw p \<noteq> None) db. the (capacity_mw p))"

text \<open>The shares of the rows of 2023 that satisfy \<open>P\<close> and have a share, and the average of
  a list of numbers.\<close>

definition shares_2023 :: "(nuclear_generation \<Rightarrow> bool) \<Rightarrow> nuclear_generation list \<Rightarrow> real list" where
  "shares_2023 P db =
     map (\<lambda>r. the (share_of_electricity_pct r))
       (filter (\<lambda>r. Year r = 2023 \<and> P r \<and> share_of_electricity_pct r \<noteq> None) db)"

definition average :: "real list \<Rightarrow> real" where
  "average xs = sum_list xs / real (length xs)"

text \<open>For query 4: the rows of Canada after 2015 in the order of their years; the increase
  of the row at position \<open>i\<close> over the row before it (none for the first row, or when one of
  the two values is null); the positions whose increase is positive and not exceeded by any
  other; and the result row of a position.\<close>

definition canada_after_2015 :: "nuclear_generation list \<Rightarrow> nuclear_generation list" where
  "canada_after_2015 db = sort_key Year (filter (\<lambda>r. 2015 < Year r \<and> Entity r = ''Canada'') db)"

definition increase :: "nuclear_generation list \<Rightarrow> nat \<Rightarrow> real option" where
  "increase s i =
     (if i = 0 then None
      else case (electricity_from_nuclear_twh (s ! i), electricity_from_nuclear_twh (s ! (i - 1))) of
             (Some a, Some b) \<Rightarrow> Some (a - b)
           | _ \<Rightarrow> None)"

definition largest_increase :: "nuclear_generation list \<Rightarrow> nat \<Rightarrow> bool" where
  "largest_increase s i =
     (\<exists>d. increase s i = Some d \<and> 0 < d
          \<and> (\<forall>j<length s. \<forall>d'. increase s j = Some d' \<longrightarrow> d' \<le> d))"

definition increase_row :: "nuclear_generation list \<Rightarrow> nat \<Rightarrow> query4_row" where
  "increase_row s i =
     \<lparr> q4_Entity = ''Canada'', q4_Year = Year (s ! i),
       q4_total_nuclear_generation = electricity_from_nuclear_twh (s ! i),
       q4_generation_difference = increase s i \<rparr>"




section \<open>Properties\<close>

subsection \<open>The operators\<close>

lemma set_sort_desc: "set (sort_desc f xs) = set xs"
  by (simp add: sort_desc_def)

lemma length_sort_desc: "length (sort_desc f xs) = length xs"
  by (simp add: sort_desc_def)

lemma mset_sort_desc: "mset (sort_desc f xs) = mset xs"
  by (simp add: sort_desc_def)

lemma sequence_err_map_Inr: "sequence_err (map (\<lambda>x. Inr (f x)) xs) = Inr (map f xs)"
  by (induction xs) simp_all

lemma sequence_err_Inl_D: "sequence_err rs = Inl e \<Longrightarrow> Inl e \<in> set rs"
proof (induction rs)
  case Nil
  then show ?case by simp
next
  case (Cons r rs)
  show ?case
  proof (cases r)
    case (Inl e')
    with Cons.prems show ?thesis by simp
  next
    case (Inr v)
    show ?thesis
    proof (cases "sequence_err rs")
      case (Inl e')
      with Cons.prems Inr have "e' = e" by simp
      with Cons.IH Inl show ?thesis by simp
    next
      case (Inr ws)
      with Cons.prems \<open>r = Inr v\<close> show ?thesis by simp
    qed
  qed
qed

lemma sequence_err_Inl_I: "Inl e \<in> set rs \<Longrightarrow> \<exists>e'. sequence_err rs = Inl e'"
proof (induction rs)
  case Nil
  then show ?case by simp
next
  case (Cons r rs)
  show ?case
  proof (cases r)
    case (Inl e')
    then show ?thesis by simp
  next
    case (Inr v)
    with Cons.prems have "Inl e \<in> set rs" by simp
    from Cons.IH [OF this] obtain e' where "sequence_err rs = Inl e'" ..
    with Inr show ?thesis by simp
  qed
qed

lemma mongo_sum_numeric: "mongo_sum vs = sum_list (numeric_values vs)"
  by (induction vs rule: mongo_sum.induct) auto

lemma numeric_values_map:
  "numeric_values (map f xs) = map (\<lambda>x. the (f x)) (filter (\<lambda>x. f x \<noteq> None) xs)"
proof (induction xs)
  case Nil
  show ?case by simp
next
  case (Cons x xs)
  then show ?case by (cases "f x") auto
qed

lemma mongo_sum_map:
  "mongo_sum (map f xs) = (\<Sum>x\<leftarrow>filter (\<lambda>x. f x \<noteq> None) xs. the (f x))"
  by (simp add: mongo_sum_numeric numeric_values_map)

lemma sum_list_groups:
  fixes g :: "'a \<Rightarrow> real"
  assumes "finite K" and "f ` set xs \<subseteq> K"
  shows "(\<Sum>k\<in>K. \<Sum>x\<leftarrow>filter (\<lambda>x. f x = k) xs. g x) = (\<Sum>x\<leftarrow>xs. g x)"
  using assms(2)
proof (induction xs)
  case Nil
  show ?case by simp
next
  case (Cons x xs)
  have split: "\<And>k. (\<Sum>y\<leftarrow>filter (\<lambda>y. f y = k) (x # xs). g y)
        = (if k = f x then g x else 0) + (\<Sum>y\<leftarrow>filter (\<lambda>y. f y = k) xs. g y)"
    by auto
  have "f x \<in> K" using Cons.prems by simp
  then have "(\<Sum>k\<in>K. if k = f x then g x else 0) = g x"
    using assms(1) by simp
  moreover have "(\<Sum>k\<in>K. \<Sum>y\<leftarrow>filter (\<lambda>y. f y = k) xs. g y) = (\<Sum>y\<leftarrow>xs. g y)"
    using Cons by simp
  ultimately show ?case
    by (simp only: split sum.distrib list.map sum_list.Cons)
qed

lemma group_by_keys: "map fst (group_by f xs) = remdups (map f xs)"
  by (simp add: group_by_def comp_def)

lemma group_by_member:
  "g \<in> set (group_by f xs) \<longleftrightarrow> fst g \<in> f ` set xs \<and> snd g = filter (\<lambda>x. f x = fst g) xs"
  by (cases g) (auto simp: group_by_def)

lemma sum_list_group_by:
  fixes h :: "'a list \<Rightarrow> real" and g :: "'a \<Rightarrow> real"
  assumes "\<And>ys. h ys = (\<Sum>y\<leftarrow>ys. g y)"
  shows "(\<Sum>gr\<leftarrow>group_by f xs. h (snd gr)) = (\<Sum>x\<leftarrow>xs. g x)"
proof -
  have "(\<Sum>gr\<leftarrow>group_by f xs. h (snd gr))
        = (\<Sum>k\<leftarrow>remdups (map f xs). \<Sum>x\<leftarrow>filter (\<lambda>x. f x = k) xs. g x)"
    by (simp add: group_by_def comp_def assms)
  also have "\<dots> = (\<Sum>k\<in>set (remdups (map f xs)). \<Sum>x\<leftarrow>filter (\<lambda>x. f x = k) xs. g x)"
    by (rule sum_list_distinct_conv_sum_set) simp
  also have "\<dots> = (\<Sum>x\<leftarrow>xs. g x)"
    by (rule sum_list_groups) auto
  finally show ?thesis .
qed

subsection \<open>Queries 6 and 8: a zero or missing denominator\<close>

lemma divide_Inl: "divide a b = Inl e \<longleftrightarrow> e = DivideByZero \<and> a \<noteq> None \<and> b = Some 0"
  by (cases a; cases b) auto

lemma divide_None: "divide a None = Inr None"
  by (cases a) simp_all

lemma query6_combine_None:
  "numeric nd = None \<Longrightarrow> query6_combine nd ot =
     Inr \<lparr> q6_nuclear = ''Nuclear'', q6_nuclear_deaths = nd, q6_other_source = source ot,
           q6_other_deaths = deaths_per_twh ot, q6_times_more_dangerous = None \<rparr>"
  by (simp add: query6_combine_def divide_None)

lemma query6_combine_Inl:
  "query6_combine nd ot = Inl e \<longleftrightarrow>
     e = DivideByZero \<and> numeric (deaths_per_twh ot) \<noteq> None \<and> numeric nd = Some 0"
proof (cases "divide (numeric (deaths_per_twh ot)) (numeric nd)")
  case (Inl e')
  then show ?thesis
    using divide_Inl [of "numeric (deaths_per_twh ot)" "numeric nd" e']
    by (auto simp: query6_combine_def)
next
  case (Inr q)
  then show ?thesis
    using divide_Inl [of "numeric (deaths_per_twh ot)" "numeric nd" DivideByZero]
    by (auto simp: query6_combine_def)
qed

lemma query6_missing:
  assumes "numeric (first_nuclear_deaths (query6_nuclear db)) = None"
  shows "\<exists>rows. query6 db = Inr rows \<and> length rows = length (query6_others db)
           \<and> list_all (\<lambda>r. q6_times_more_dangerous r = None) rows"
proof -
  let ?nd = "first_nuclear_deaths (query6_nuclear db)"
  let ?row = "\<lambda>ot. \<lparr> q6_nuclear = ''Nuclear'', q6_nuclear_deaths = ?nd, q6_other_source = source ot,
           q6_other_deaths = deaths_per_twh ot, q6_times_more_dangerous = None \<rparr>"
  have "query6_combine ?nd = (\<lambda>ot. Inr (?row ot))"
    by (rule ext) (rule query6_combine_None [OF assms])
  then have "sequence_err (map (query6_combine ?nd) (query6_others db))
               = Inr (map ?row (query6_others db))"
    by (simp only: sequence_err_map_Inr)
  then have "query6 db = Inr (sort_desc q6_times_more_dangerous (map ?row (query6_others db)))"
    by (simp add: query6_def)
  then show ?thesis
    by (simp add: length_sort_desc list_all_iff set_sort_desc)
qed

lemma query6_zero:
  assumes "first_nuclear_deaths (query6_nuclear db) = Number 0"
    and "\<exists>ot\<in>set (query6_others db). numeric (deaths_per_twh ot) \<noteq> None"
  shows "query6 db = Inl DivideByZero"
proof -
  let ?rs = "map (query6_combine (Number 0)) (query6_others db)"
  from assms(2) obtain ot where ot: "ot \<in> set (query6_others db)"
      "numeric (deaths_per_twh ot) \<noteq> None"
    by blast
  then have "query6_combine (Number 0) ot = Inl DivideByZero"
    by (simp add: query6_combine_Inl)
  with ot(1) have "Inl DivideByZero \<in> set ?rs"
    by force
  then obtain e where e: "sequence_err ?rs = Inl e"
    using sequence_err_Inl_I by blast
  then have "Inl e \<in> set ?rs"
    by (rule sequence_err_Inl_D)
  then obtain x where "query6_combine (Number 0) x = Inl e"
    by auto
  then have "e = DivideByZero"
    by (simp add: query6_combine_Inl)
  with e show ?thesis
    by (simp add: query6_def assms(1))
qed

lemma query8_add_fields_Inl:
  "query8_add_fields p = Inl e \<longleftrightarrow>
     e = DivideByZero \<and> generation_gwh_2017 p = Some 0 \<and> estimated_generation_gwh_2017 p \<noteq> None"
proof -
  let ?n = "mabs (subtract (generation_gwh_2017 p) (estimated_generation_gwh_2017 p))"
  have n: "?n \<noteq> None \<longleftrightarrow> generation_gwh_2017 p \<noteq> None \<and> estimated_generation_gwh_2017 p \<noteq> None"
    by (cases "generation_gwh_2017 p"; cases "estimated_generation_gwh_2017 p") simp_all
  show ?thesis
  proof (cases "divide ?n (generation_gwh_2017 p)")
    case (Inl e')
    then show ?thesis
      using divide_Inl [of ?n "generation_gwh_2017 p" e'] n by (auto simp: query8_add_fields_def)
  next
    case (Inr q)
    then show ?thesis
      using divide_Inl [of ?n "generation_gwh_2017 p" DivideByZero] n
      by (auto simp: query8_add_fields_def)
  qed
qed

lemma query8_fails_iff:
  "(\<exists>e. query8 db = Inl e) \<longleftrightarrow> (\<exists>p\<in>set (query8_match db). generation_gwh_2017 p = Some 0)"
proof
  assume "\<exists>e. query8 db = Inl e"
  then obtain e where "sequence_err (map query8_add_fields (query8_match db)) = Inl e"
    by (auto simp: query8_def split: sum.splits)
  then have "Inl e \<in> set (map query8_add_fields (query8_match db))"
    by (rule sequence_err_Inl_D)
  then obtain x where "x \<in> set (query8_match db)" "query8_add_fields x = Inl e"
    by auto
  then show "\<exists>p\<in>set (query8_match db). generation_gwh_2017 p = Some 0"
    by (auto simp: query8_add_fields_Inl)
next
  assume "\<exists>p\<in>set (query8_match db). generation_gwh_2017 p = Some 0"
  then obtain p where p: "p \<in> set (query8_match db)" "generation_gwh_2017 p = Some 0"
    by blast
  then have "estimated_generation_gwh_2017 p \<noteq> None"
    by (simp add: query8_match_def)
  with p(2) have "query8_add_fields p = Inl DivideByZero"
    by (simp add: query8_add_fields_Inl)
  with p(1) have "Inl DivideByZero \<in> set (map query8_add_fields (query8_match db))"
    by force
  then obtain e where "sequence_err (map query8_add_fields (query8_match db)) = Inl e"
    using sequence_err_Inl_I by blast
  then show "\<exists>e. query8 db = Inl e"
    by (simp add: query8_def)
qed

lemma query8_error_kind: "query8 db = Inl e \<Longrightarrow> e = DivideByZero"
proof -
  assume "query8 db = Inl e"
  then have "sequence_err (map query8_add_fields (query8_match db)) = Inl e"
    by (auto simp: query8_def split: sum.splits)
  then have "Inl e \<in> set (map query8_add_fields (query8_match db))"
    by (rule sequence_err_Inl_D)
  then obtain x where "query8_add_fields x = Inl e"
    by auto
  then show ?thesis
    by (simp add: query8_add_fields_Inl)
qed

lemma query8_match_missing:
  "query8_match (filter (\<lambda>p. generation_gwh_2017 p \<noteq> None) db) = query8_match db"
  by (auto simp: query8_match_def intro: filter_cong)

text \<open>
  Claim C1, as the code has it. In query 6, when the nuclear death rate is missing or null
  (no document of the entity Nuclear, or one without a rate), the query succeeds with one
  row per other source and \<open>times_more_dangerous\<close> null in each; when the nuclear death
  rate is 0 and some other source has a rate, the query fails with a division by zero. In
  query 8, a nuclear plant with real generation 0 and an estimate makes the query fail with
  a division by zero, and this is the only way it fails; plants without a real generation
  are filtered out before the division and change nothing in the result.
\<close>

theorem denominator_zero_or_missing:
  assumes "numeric (first_nuclear_deaths (query6_nuclear d1)) = None"
    and "first_nuclear_deaths (query6_nuclear d2) = Number 0"
    and "\<exists>ot\<in>set (query6_others d2). numeric (deaths_per_twh ot) \<noteq> None"
    and "\<exists>p\<in>set (query8_match p1). generation_gwh_2017 p = Some 0"
  shows "(\<exists>rows. query6 d1 = Inr rows \<and> length rows = length (query6_others d1)
            \<and> list_all (\<lambda>r. q6_times_more_dangerous r = None) rows)
       \<and> query6 d2 = Inl DivideByZero
       \<and> query8 p1 = Inl DivideByZero
       \<and> query8 (filter (\<lambda>p. generation_gwh_2017 p \<noteq> None) p2) = query8 p2
       \<and> ((\<exists>e. query8 p2 = Inl e)
            \<longleftrightarrow> (\<exists>p\<in>set (query8_match p2). generation_gwh_2017 p = Some 0))"
proof -
  from assms(4) obtain e where "query8 p1 = Inl e"
    using query8_fails_iff [of p1] by blast
  then have "query8 p1 = Inl DivideByZero"
    using query8_error_kind by blast
  moreover have "query8 (filter (\<lambda>p. generation_gwh_2017 p \<noteq> None) p2) = query8 p2"
    by (simp only: query8_def query8_match_missing)
  ultimately show ?thesis
    using query6_missing [OF assms(1)] query6_zero [OF assms(2,3)] query8_fails_iff [of p2]
    by blast
qed

theorem denominator_zero_or_missing_witness:
  "numeric (first_nuclear_deaths (query6_nuclear rates_without_nuclear)) = None
   \<and> first_nuclear_deaths (query6_nuclear rates_zero_nuclear) = Number 0
   \<and> (\<exists>ot\<in>set (query6_others rates_zero_nuclear). numeric (deaths_per_twh ot) \<noteq> None)
   \<and> (\<exists>p\<in>set (query8_match plants_zero_generation). generation_gwh_2017 p = Some 0)
   \<and> (\<exists>rows. query6 rates_without_nuclear = Inr rows
         \<and> length rows = length (query6_others rates_without_nuclear)
         \<and> list_all (\<lambda>r. q6_times_more_dangerous r = None) rows)
   \<and> query6 rates_zero_nuclear = Inl DivideByZero
   \<and> query8 plants_zero_generation = Inl DivideByZero
   \<and> query8 (filter (\<lambda>p. generation_gwh_2017 p \<noteq> None) plants_missing_generation)
       = query8 plants_missing_generation
   \<and> length (query8_match plants_missing_generation) = 1"
proof -
  have h1: "numeric (first_nuclear_deaths (query6_nuclear rates_without_nuclear)) = None"
    by (simp add: query6_nuclear_def first_nuclear_deaths_def rates_without_nuclear_def)
  have h2: "first_nuclear_deaths (query6_nuclear rates_zero_nuclear) = Number 0"
    by (simp add: query6_nuclear_def first_nuclear_deaths_def rates_zero_nuclear_def)
  have h3: "\<exists>ot\<in>set (query6_others rates_zero_nuclear). numeric (deaths_per_twh ot) \<noteq> None"
    by (simp add: query6_others_def rates_zero_nuclear_def)
  have h4: "\<exists>p\<in>set (query8_match plants_zero_generation). generation_gwh_2017 p = Some 0"
    by (simp add: query8_match_def plants_zero_generation_def plant_def)
  have h5: "length (query8_match plants_missing_generation) = 1"
    by (simp add: query8_match_def plants_missing_generation_def plant_def)
  from denominator_zero_or_missing [OF h1 h2 h3 h4, of plants_missing_generation] h1 h2 h3 h4 h5
  show ?thesis
    by blast
qed

text \<open>
  Claim C1 as stated fails: on a real generation of 0 query 8 does not return a row with a
  marker, it fails as a whole; so does query 6 on a nuclear death rate of 0.
\<close>

theorem denominator_zero_crashes:
  "query8 [\<lparr> country = ''FRA'', country_long = ''France'', name = ''Bugey'',
             primary_fuel = ''Nuclear'', capacity_mw = Some 3580, latitude = Some 45,
             longitude = Some 5, generation_gwh_2017 = Some 0,
             estimated_generation_gwh_2017 = Some 5 \<rparr>] = Inl DivideByZero
   \<and> query6 [\<lparr> source = ''Nuclear'', deaths_per_twh = Number 0 \<rparr>,
             \<lparr> source = ''Coal'', deaths_per_twh = Number 24 \<rparr>] = Inl DivideByZero"
  by (simp add: query8_def query8_match_def query8_add_fields_def query6_def query6_nuclear_def
      query6_others_def query6_combine_def first_nuclear_deaths_def)

subsection \<open>Query 7: the facet branches and their recombination\<close>

lemma query7_group_member:
  "x \<in> set (query7_group fuel db) \<longleftrightarrow>
     (\<exists>p\<in>set db. primary_fuel p = fuel \<and> country p = fst (fst x) \<and> country_long p = snd (fst x))
     \<and> snd x = estimated_sum fuel (fst (fst x)) (snd (fst x)) db"
proof -
  let ?key = "\<lambda>p. (country p, country_long p)"
  let ?xs = "filter (\<lambda>p. primary_fuel p = fuel) db"
  have flt: "\<And>k. filter (\<lambda>p. estimated_generation_gwh_2017 p \<noteq> None) (filter (\<lambda>p. ?key p = k) ?xs)
      = filter (\<lambda>p. primary_fuel p = fuel \<and> country p = fst k \<and> country_long p = snd k
                        \<and> estimated_generation_gwh_2017 p \<noteq> None) db"
    by (auto intro: filter_cong)
  have sum: "\<And>k. mongo_sum (map estimated_generation_gwh_2017 (filter (\<lambda>p. ?key p = k) ?xs))
      = estimated_sum fuel (fst k) (snd k) db"
    unfolding mongo_sum_map flt estimated_sum_def ..
  have "x \<in> set (query7_group fuel db) \<longleftrightarrow> fst x \<in> ?key ` set ?xs
      \<and> snd x = mongo_sum (map estimated_generation_gwh_2017 (filter (\<lambda>p. ?key p = fst x) ?xs))"
  proof
    assume "x \<in> set (query7_group fuel db)"
    then obtain g where g: "g \<in> set (group_by ?key ?xs)"
      and x: "x = (fst g, mongo_sum (map estimated_generation_gwh_2017 (snd g)))"
      unfolding query7_group_def by auto
    from g have "fst g \<in> ?key ` set ?xs" and "snd g = filter (\<lambda>p. ?key p = fst g) ?xs"
      unfolding group_by_member by blast+
    with x show "fst x \<in> ?key ` set ?xs
      \<and> snd x = mongo_sum (map estimated_generation_gwh_2017 (filter (\<lambda>p. ?key p = fst x) ?xs))"
      by simp
  next
    assume r: "fst x \<in> ?key ` set ?xs
      \<and> snd x = mongo_sum (map estimated_generation_gwh_2017 (filter (\<lambda>p. ?key p = fst x) ?xs))"
    let ?g = "(fst x, filter (\<lambda>p. ?key p = fst x) ?xs)"
    from r have "?g \<in> set (group_by ?key ?xs)"
      unfolding group_by_member by simp
    then have "(fst ?g, mongo_sum (map estimated_generation_gwh_2017 (snd ?g)))
        \<in> set (query7_group fuel db)"
      unfolding query7_group_def set_map by (rule imageI)
    with r show "x \<in> set (query7_group fuel db)"
      by (cases x) simp
  qed
  also have "\<dots> \<longleftrightarrow> (\<exists>p\<in>set db. primary_fuel p = fuel \<and> country p = fst (fst x) \<and> country_long p = snd (fst x))
     \<and> snd x = estimated_sum fuel (fst (fst x)) (snd (fst x)) db"
    unfolding sum by (cases x) auto
  finally show ?thesis .
qed

lemma query7_nuclear_member:
  "b \<in> set (query7_nuclear db) \<longleftrightarrow>
     (\<exists>p\<in>set db. primary_fuel p = ''Nuclear'' \<and> country p = b_country b
                  \<and> country_long p = b_country_long b)
     \<and> b_gwh b = estimated_sum ''Nuclear'' (b_country b) (b_country_long b) db
     \<and> 0 < b_gwh b
     \<and> b_deaths b = b_gwh b / 1000 * (7 / 100)"
proof -
  have "b \<in> set (query7_nuclear db) \<longleftrightarrow>
      (\<exists>x\<in>set (query7_group ''Nuclear'' db). 0 < snd x \<and>
          b = \<lparr> b_country = fst (fst x), b_country_long = snd (fst x),
                b_gwh = snd x, b_deaths = snd x / 1000 * (7 / 100) \<rparr>)"
    by (auto simp: query7_nuclear_def)
  also have "\<dots> \<longleftrightarrow> ((b_country b, b_country_long b), b_gwh b) \<in> set (query7_group ''Nuclear'' db)
      \<and> 0 < b_gwh b \<and> b_deaths b = b_gwh b / 1000 * (7 / 100)"
    by (cases b) force
  finally show ?thesis
    by (simp add: query7_group_member)
qed

lemma query7_solar_member:
  "b \<in> set (query7_solar db) \<longleftrightarrow>
     (\<exists>p\<in>set db. primary_fuel p = ''Solar'' \<and> country p = b_country b
                  \<and> country_long p = b_country_long b)
     \<and> b_gwh b = estimated_sum ''Solar'' (b_country b) (b_country_long b) db
     \<and> 0 < b_gwh b
     \<and> b_deaths b = b_gwh b / 1000 * (2 / 100)"
proof -
  have "b \<in> set (query7_solar db) \<longleftrightarrow>
      (\<exists>x\<in>set (query7_group ''Solar'' db). 0 < snd x \<and>
          b = \<lparr> b_country = fst (fst x), b_country_long = snd (fst x),
                b_gwh = snd x, b_deaths = snd x / 1000 * (2 / 100) \<rparr>)"
    by (auto simp: query7_solar_def)
  also have "\<dots> \<longleftrightarrow> ((b_country b, b_country_long b), b_gwh b) \<in> set (query7_group ''Solar'' db)
      \<and> 0 < b_gwh b \<and> b_deaths b = b_gwh b / 1000 * (2 / 100)"
    by (cases b) force
  finally show ?thesis
    by (simp add: query7_group_member)
qed

lemma first_solar_None: "first_solar solar n = None \<longleftrightarrow> b_country n \<notin> b_country ` set solar"
proof -
  have "first_solar solar n = None \<longleftrightarrow> filter (\<lambda>s. b_country s = b_country n) solar = []"
    by (simp add: first_solar_def split: list.splits)
  also have "\<dots> \<longleftrightarrow> b_country n \<notin> b_country ` set solar"
    unfolding filter_empty_conv image_iff by metis
  finally show ?thesis .
qed

lemma first_solar_Some:
  assumes "first_solar solar n = Some s"
  shows "s \<in> set solar \<and> b_country s = b_country n"
proof -
  from assms obtain ss where eq: "filter (\<lambda>s. b_country s = b_country n) solar = s # ss"
    by (auto simp: first_solar_def split: list.splits)
  have "s \<in> set (filter (\<lambda>s. b_country s = b_country n) solar)"
    unfolding eq by simp
  then show ?thesis by simp
qed

lemma query7_merge_country: "q7_country (query7_merge n (first_solar solar n)) = b_country n"
  by (cases "first_solar solar n") (auto dest: first_solar_Some)

lemma query7_merge_solar:
  "q7_solar_gwh (query7_merge n (first_solar solar n)) = map_option b_gwh (first_solar solar n)
   \<and> q7_solar_deaths (query7_merge n (first_solar solar n)) = map_option b_deaths (first_solar solar n)
   \<and> q7_nuclear_gwh (query7_merge n (first_solar solar n)) = b_gwh n
   \<and> q7_nuclear_deaths (query7_merge n (first_solar solar n)) = b_deaths n"
  by (cases "first_solar solar n") auto

lemma query7_countries: "map q7_country (query7_combined nuclear solar) = map b_country nuclear"
  by (simp add: query7_combined_def query7_merge_country comp_def)

lemma query7_mset: "mset (query7 db) = mset (query7_combined (query7_nuclear db) (query7_solar db))"
  by (simp add: query7_def mset_sort_desc)

text \<open>
  Claim C2, as the code has it. The recombination maps over the nuclear branch, so query 7
  has exactly one row per document of the nuclear branch, with that document's country and
  nuclear figures (a left outer join on the country code). The solar fields of the row are
  those of the first solar document with the same country code; they are missing exactly
  when the solar branch has no document of that country. A country present in the solar
  branch only has no row.
\<close>

theorem query7_left_join:
  "map q7_country (query7_combined (query7_nuclear db) (query7_solar db))
     = map b_country (query7_nuclear db)
   \<and> mset (map q7_country (query7 db)) = mset (map b_country (query7_nuclear db))
   \<and> length (query7 db) = length (query7_nuclear db)
   \<and> (\<forall>r\<in>set (query7 db).
         \<exists>n\<in>set (query7_nuclear db).
           q7_country r = b_country n
         \<and> q7_nuclear_gwh r = b_gwh n
         \<and> q7_nuclear_deaths r = b_deaths n
         \<and> q7_solar_gwh r = map_option b_gwh (first_solar (query7_solar db) n)
         \<and> q7_solar_deaths r = map_option b_deaths (first_solar (query7_solar db) n)
         \<and> (first_solar (query7_solar db) n = None
              \<longleftrightarrow> b_country n \<notin> b_country ` set (query7_solar db)))
   \<and> (\<forall>s\<in>set (query7_solar db).
         b_country s \<notin> b_country ` set (query7_nuclear db)
           \<longrightarrow> b_country s \<notin> q7_country ` set (query7 db))"
proof -
  let ?nuc = "query7_nuclear db" and ?sol = "query7_solar db"
  have c: "map q7_country (query7_combined ?nuc ?sol) = map b_country ?nuc"
    by (rule query7_countries)
  have m: "mset (map q7_country (query7 db)) = mset (map b_country ?nuc)"
    using query7_mset [of db] c by (metis mset_map)
  have l: "length (query7 db) = length ?nuc"
    by (simp add: query7_def length_sort_desc query7_combined_def)
  have s: "set (query7 db) = (\<lambda>n. query7_merge n (first_solar ?sol n)) ` set ?nuc"
    by (simp add: query7_def set_sort_desc query7_combined_def)
  have r: "\<forall>r\<in>set (query7 db).
         \<exists>n\<in>set ?nuc.
           q7_country r = b_country n
         \<and> q7_nuclear_gwh r = b_gwh n
         \<and> q7_nuclear_deaths r = b_deaths n
         \<and> q7_solar_gwh r = map_option b_gwh (first_solar ?sol n)
         \<and> q7_solar_deaths r = map_option b_deaths (first_solar ?sol n)
         \<and> (first_solar ?sol n = None \<longleftrightarrow> b_country n \<notin> b_country ` set ?sol)"
    unfolding s using query7_merge_country query7_merge_solar first_solar_None by blast
  have "q7_country ` set (query7 db) = b_country ` set ?nuc"
    using m by (metis set_map set_mset_mset)
  then have d: "\<forall>s\<in>set ?sol. b_country s \<notin> b_country ` set ?nuc
           \<longrightarrow> b_country s \<notin> q7_country ` set (query7 db)"
    by simp
  from c m l r d show ?thesis
    by blast
qed

theorem query7_left_join_witness:
  "query7 plants_three_countries
     = [\<lparr> q7_country = ''FRA'', q7_country_long = ''France'', q7_nuclear_gwh = 100,
          q7_solar_gwh = Some 10, q7_nuclear_deaths = 7 / 1000, q7_solar_deaths = Some (1 / 5000) \<rparr>,
        \<lparr> q7_country = ''DEU'', q7_country_long = ''Germany'', q7_nuclear_gwh = 50,
          q7_solar_gwh = None, q7_nuclear_deaths = 7 / 2000, q7_solar_deaths = None \<rparr>]
   \<and> map b_country (query7_nuclear plants_three_countries) = [''DEU'', ''FRA'']
   \<and> map b_country (query7_solar plants_three_countries) = [''FRA'', ''ESP'']
   \<and> mset (map q7_country (query7 plants_three_countries))
       = mset (map b_country (query7_nuclear plants_three_countries))
   \<and> length (query7 plants_three_countries) = length (query7_nuclear plants_three_countries)"
proof -
  have n: "query7_nuclear plants_three_countries
      = [\<lparr> b_country = ''DEU'', b_country_long = ''Germany'', b_gwh = 50, b_deaths = 7 / 2000 \<rparr>,
         \<lparr> b_country = ''FRA'', b_country_long = ''France'', b_gwh = 100, b_deaths = 7 / 1000 \<rparr>]"
    by (simp add: query7_nuclear_def query7_group_def group_by_def plants_three_countries_def
        plant_def)
  have s: "query7_solar plants_three_countries
      = [\<lparr> b_country = ''FRA'', b_country_long = ''France'', b_gwh = 10, b_deaths = 1 / 5000 \<rparr>,
         \<lparr> b_country = ''ESP'', b_country_long = ''Spain'', b_gwh = 20, b_deaths = 1 / 2500 \<rparr>]"
    by (simp add: query7_solar_def query7_group_def group_by_def plants_three_countries_def
        plant_def)
  have q: "query7 plants_three_countries
     = [\<lparr> q7_country = ''FRA'', q7_country_long = ''France'', q7_nuclear_gwh = 100,
          q7_solar_gwh = Some 10, q7_nuclear_deaths = 7 / 1000, q7_solar_deaths = Some (1 / 5000) \<rparr>,
        \<lparr> q7_country = ''DEU'', q7_country_long = ''Germany'', q7_nuclear_gwh = 50,
          q7_solar_gwh = None, q7_nuclear_deaths = 7 / 2000, q7_solar_deaths = None \<rparr>]"
    unfolding query7_def n s by (simp add: query7_combined_def first_solar_def sort_desc_def)
  have a: "map b_country (query7_nuclear plants_three_countries) = [''DEU'', ''FRA'']"
    unfolding n by simp
  have b: "map b_country (query7_solar plants_three_countries) = [''FRA'', ''ESP'']"
    unfolding s by simp
  from query7_left_join [of plants_three_countries] q a b show ?thesis
    by blast
qed

text \<open>
  Claim C2 as stated fails: a country with nuclear generation and no solar plant is not
  dropped, it gets a row without the solar fields.
\<close>

theorem query7_nuclear_only_country_emitted:
  "query7_solar [plant ''DEU'' ''Germany'' ''Nuclear'' (Some 1400) None (Some 50)] = []
   \<and> query7 [plant ''DEU'' ''Germany'' ''Nuclear'' (Some 1400) None (Some 50)]
       = [\<lparr> q7_country = ''DEU'', q7_country_long = ''Germany'', q7_nuclear_gwh = 50,
            q7_solar_gwh = None, q7_nuclear_deaths = 7 / 2000, q7_solar_deaths = None \<rparr>]"
  by (simp add: query7_def query7_nuclear_def query7_solar_def query7_group_def group_by_def
      plant_def query7_combined_def first_solar_def sort_desc_def)

text \<open>
  Claim C9, as the code has it. A document is in the nuclear (solar) branch exactly when
  some nuclear (solar) plant has its country code and name, its generation is the sum of
  the estimated generation over these plants, and that sum is strictly greater than 0; a
  country whose estimates are zero or all absent has the sum 0 and is not in the branch.
  The countries of the output are exactly those of the nuclear branch: a country outside
  the nuclear branch has no row, whatever its solar branch holds.
\<close>

theorem query7_branches_positive:
  "(b \<in> set (query7_nuclear db) \<longleftrightarrow>
      (\<exists>p\<in>set db. primary_fuel p = ''Nuclear'' \<and> country p = b_country b
                   \<and> country_long p = b_country_long b)
      \<and> b_gwh b = estimated_sum ''Nuclear'' (b_country b) (b_country_long b) db
      \<and> 0 < b_gwh b
      \<and> b_deaths b = b_gwh b / 1000 * (7 / 100))
   \<and> (b \<in> set (query7_solar db) \<longleftrightarrow>
      (\<exists>p\<in>set db. primary_fuel p = ''Solar'' \<and> country p = b_country b
                   \<and> country_long p = b_country_long b)
      \<and> b_gwh b = estimated_sum ''Solar'' (b_country b) (b_country_long b) db
      \<and> 0 < b_gwh b
      \<and> b_deaths b = b_gwh b / 1000 * (2 / 100))
   \<and> q7_country ` set (query7 db) = b_country ` set (query7_nuclear db)"
proof -
  have "mset (map q7_country (query7 db)) = mset (map b_country (query7_nuclear db))"
    using query7_mset [of db] query7_countries [of "query7_nuclear db" "query7_solar db"]
    by (metis mset_map)
  then have "q7_country ` set (query7 db) = b_country ` set (query7_nuclear db)"
    by (metis set_map set_mset_mset)
  then show ?thesis
    using query7_nuclear_member [of b db] query7_solar_member [of b db] by blast
qed

theorem query7_branches_positive_witness:
  "\<lparr> b_country = ''FRA'', b_country_long = ''France'', b_gwh = 100, b_deaths = 7 / 1000 \<rparr>
     \<in> set (query7_nuclear plants_three_countries)
   \<and> estimated_sum ''Nuclear'' ''FRA'' ''France'' plants_three_countries = 100
   \<and> estimated_sum ''Nuclear'' ''ESP'' ''Spain'' plants_three_countries = 0
   \<and> ''ESP'' \<notin> b_country ` set (query7_nuclear plants_three_countries)
   \<and> q7_country ` set (query7 plants_three_countries) = {''DEU'', ''FRA''}"
proof -
  let ?b = "\<lparr> b_country = ''FRA'', b_country_long = ''France'', b_gwh = 100, b_deaths = 7 / 1000 \<rparr>"
  have e: "estimated_sum ''Nuclear'' ''FRA'' ''France'' plants_three_countries = 100"
    by (simp add: estimated_sum_def plants_three_countries_def plant_def)
  have z: "estimated_sum ''Nuclear'' ''ESP'' ''Spain'' plants_three_countries = 0"
    by (simp add: estimated_sum_def plants_three_countries_def plant_def)
  have p: "\<exists>p\<in>set plants_three_countries. primary_fuel p = ''Nuclear'' \<and> country p = b_country ?b
                   \<and> country_long p = b_country_long ?b"
    by (simp add: plants_three_countries_def plant_def)
  have n: "map b_country (query7_nuclear plants_three_countries) = [''DEU'', ''FRA'']"
    by (simp add: query7_nuclear_def query7_group_def group_by_def plants_three_countries_def
        plant_def)
  then have n': "b_country ` set (query7_nuclear plants_three_countries) = {''DEU'', ''FRA''}"
    by (metis list.simps(15) set_map empty_set)
  have i: "?b \<in> set (query7_nuclear plants_three_countries)"
    using query7_branches_positive [of ?b plants_three_countries] e p by simp
  have o: "q7_country ` set (query7 plants_three_countries) = {''DEU'', ''FRA''}"
    using query7_branches_positive [of ?b plants_three_countries] n' by simp
  from i e z n' o show ?thesis
    by simp
qed

text \<open>
  Claim C9 as stated fails for the solar branch: a country whose solar estimate is 0 is
  excluded from the solar branch and still has a row in the output.
\<close>

theorem query7_zero_solar_country_emitted:
  "query7_solar [plant ''FRA'' ''France'' ''Nuclear'' (Some 900) None (Some 100),
                 plant ''FRA'' ''France'' ''Solar'' (Some 10) None (Some 0)] = []
   \<and> map q7_country
        (query7 [plant ''FRA'' ''France'' ''Nuclear'' (Some 900) None (Some 100),
                 plant ''FRA'' ''France'' ''Solar'' (Some 10) None (Some 0)]) = [''FRA'']"
  by (simp add: query7_def query7_nuclear_def query7_solar_def query7_group_def group_by_def
      plant_def query7_combined_def first_solar_def sort_desc_def)

subsection \<open>Query 4: the largest increase\<close>

lemma remdups_constant:
  "\<forall>x\<in>set xs. f x = k \<Longrightarrow> remdups (map f xs) = (if xs = [] then [] else [k])"
proof (induction xs)
  case Nil
  show ?case by simp
next
  case (Cons x xs)
  then show ?case by (cases xs) auto
qed

lemma group_by_constant:
  assumes "\<forall>x\<in>set xs. f x = k"
  shows "group_by f xs = (if xs = [] then [] else [(k, xs)])"
proof -
  from assms have "filter (\<lambda>x. f x = k) xs = xs"
    by (simp add: filter_id_conv)
  then show ?thesis
    by (simp add: group_by_def remdups_constant [OF assms])
qed

lemma shift_prev_nth:
  "shift_prev s
     = map (\<lambda>i. (s ! i, if i = 0 then None else electricity_from_nuclear_twh (s ! (i - 1))))
         [0..<length s]"
proof (rule nth_equalityI)
  show "length (shift_prev s) = length (map (\<lambda>i. (s ! i, if i = 0 then None
            else electricity_from_nuclear_twh (s ! (i - 1)))) [0..<length s])"
    by (simp add: shift_prev_def)
next
  fix i
  assume "i < length (shift_prev s)"
  then have i: "i < length s"
    by (simp add: shift_prev_def)
  then show "shift_prev s ! i = map (\<lambda>i. (s ! i, if i = 0 then None
            else electricity_from_nuclear_twh (s ! (i - 1)))) [0..<length s] ! i"
    by (simp add: shift_prev_def nth_Cons')
qed

lemma query4_window_canada:
  "query4_window (query4_match db) = shift_prev (canada_after_2015 db)"
proof -
  let ?s = "sort_key Year (query4_match db)"
  have e: "\<forall>x\<in>set ?s. Entity x = ''Canada''"
    by (simp add: query4_match_def)
  have "sort_key Year ?s = ?s"
    by (rule sort_key_id_if_sorted) simp
  then have "query4_window (query4_match db) = shift_prev ?s"
    unfolding query4_window_def group_by_constant [OF e] by (simp add: shift_prev_def)
  then show ?thesis
    by (simp add: canada_after_2015_def query4_match_def)
qed

lemma mongo_max_upper: "v \<in> set vs \<Longrightarrow> v \<le> mongo_max vs"
proof (induction vs rule: mongo_max.induct)
  case 1
  then show ?case by simp
next
  case (2 vs)
  then show ?case by auto
next
  case (3 w vs)
  then show ?case
    by (cases "mongo_max vs"; cases v) (auto simp: max_def)
qed

lemma mongo_max_member: "vs \<noteq> [] \<Longrightarrow> mongo_max vs \<in> set vs"
proof (induction vs rule: mongo_max.induct)
  case 1
  then show ?case by simp
next
  case (2 vs)
  then show ?case by (cases vs) auto
next
  case (3 w vs)
  show ?case
  proof (cases "mongo_max vs")
    case None
    then show ?thesis by simp
  next
    case (Some m)
    then have "vs \<noteq> []" by auto
    with 3 Some have "Some m \<in> set vs" by simp
    with Some show ?thesis by (simp add: max_def)
  qed
qed

lemma mongo_max_eq_iff:
  assumes "v \<in> set vs"
  shows "v = mongo_max vs \<longleftrightarrow> (\<forall>w\<in>set vs. w \<le> v)"
proof
  assume "v = mongo_max vs"
  then show "\<forall>w\<in>set vs. w \<le> v"
    by (simp add: mongo_max_upper)
next
  assume a: "\<forall>w\<in>set vs. w \<le> v"
  from assms have "vs \<noteq> []" by auto
  then have "mongo_max vs \<in> set vs"
    by (rule mongo_max_member)
  with a have "mongo_max vs \<le> v" by blast
  moreover from assms have "v \<le> mongo_max vs"
    by (rule mongo_max_upper)
  ultimately show "v = mongo_max vs" by simp
qed

lemma query4_add_fields_nth:
  "generation_difference
     (query4_add_fields (s ! i, if i = 0 then None else electricity_from_nuclear_twh (s ! (i - 1))))
     = increase s i"
  by (cases "electricity_from_nuclear_twh (s ! i)"; cases "electricity_from_nuclear_twh (s ! (i - 1))")
    (simp_all add: query4_add_fields_def increase_def)

lemma canada_after_2015_entity:
  "i < length (canada_after_2015 db) \<Longrightarrow> Entity (canada_after_2015 db ! i) = ''Canada''"
proof -
  assume "i < length (canada_after_2015 db)"
  then have "canada_after_2015 db ! i \<in> set (canada_after_2015 db)"
    by (rule nth_mem)
  then show ?thesis
    by (simp add: canada_after_2015_def)
qed

lemma query4_argmax_constant:
  assumes "\<forall>d\<in>set ds. Entity (q4_doc d) = k"
  shows "query4_argmax ds
          = filter (\<lambda>d. generation_difference d = mongo_max (map generation_difference ds)) ds"
  unfolding query4_argmax_def group_by_constant [OF assms] by simp

lemma positive_largest:
  fixes s :: "nuclear_generation list"
  defines "I \<equiv> filter (\<lambda>i. match_gt (increase s i) (Some 0)) [0..<length s]"
  assumes "i < length s"
  shows "match_gt (increase s i) (Some 0) \<and> increase s i = mongo_max (map (increase s) I)
          \<longleftrightarrow> largest_increase s i"
proof
  assume a: "match_gt (increase s i) (Some 0) \<and> increase s i = mongo_max (map (increase s) I)"
  then have p: "match_gt (increase s i) (Some 0)" ..
  then obtain d where d: "increase s i = Some d" "0 < d"
    by (cases "increase s i") simp_all
  from p assms(2) have "i \<in> set I"
    by (simp add: I_def)
  then have "increase s i \<in> set (map (increase s) I)"
    by simp
  with a have up: "\<forall>w\<in>set (map (increase s) I). w \<le> Some d"
    using mongo_max_eq_iff [of "increase s i" "map (increase s) I"] d(1) by simp
  have "\<forall>j<length s. \<forall>d'. increase s j = Some d' \<longrightarrow> d' \<le> d"
  proof (intro allI impI)
    fix j d'
    assume j: "j < length s" and d': "increase s j = Some d'"
    show "d' \<le> d"
    proof (cases "0 < d'")
      case True
      with j d' have "j \<in> set I"
        by (simp add: I_def)
      then have "increase s j \<in> set (map (increase s) I)"
        by simp
      with up have "increase s j \<le> Some d" ..
      then show ?thesis
        unfolding d' by simp
    next
      case False
      with d(2) show ?thesis by simp
    qed
  qed
  with d show "largest_increase s i"
    by (auto simp: largest_increase_def)
next
  assume "largest_increase s i"
  then obtain d where d: "increase s i = Some d" "0 < d"
    and best: "\<forall>j<length s. \<forall>d'. increase s j = Some d' \<longrightarrow> d' \<le> d"
    by (auto simp: largest_increase_def)
  from d have pos: "match_gt (increase s i) (Some 0)"
    by simp
  with assms(2) have "i \<in> set I"
    by (simp add: I_def)
  then have mem: "increase s i \<in> set (map (increase s) I)"
    by simp
  have "\<forall>w\<in>set (map (increase s) I). w \<le> increase s i"
  proof
    fix w
    assume "w \<in> set (map (increase s) I)"
    then obtain j where j: "j < length s" and w: "w = increase s j"
      by (auto simp: I_def)
    show "w \<le> increase s i"
    proof (cases w)
      case None
      then show ?thesis by simp
    next
      case (Some d')
      with best j w have "d' \<le> d" by simp
      with Some d(1) show ?thesis by simp
    qed
  qed
  with mem have "increase s i = mongo_max (map (increase s) I)"
    using mongo_max_eq_iff by blast
  with pos show "match_gt (increase s i) (Some 0) \<and> increase s i = mongo_max (map (increase s) I)"
    by simp
qed

lemma query4_list:
  "query4 db = map (increase_row (canada_after_2015 db))
                 (filter (largest_increase (canada_after_2015 db))
                    [0..<length (canada_after_2015 db)])"
proof -
  let ?s = "canada_after_2015 db"
  let ?doc = "\<lambda>i. query4_add_fields
                 (?s ! i, if i = 0 then None else electricity_from_nuclear_twh (?s ! (i - 1)))"
  let ?I = "filter (\<lambda>i. match_gt (increase ?s i) (Some 0)) [0..<length ?s]"
  have D: "map query4_add_fields (query4_window (query4_match db)) = map ?doc [0..<length ?s]"
    unfolding query4_window_canada by (subst shift_prev_nth) (simp add: comp_def)
  have P: "query4_positive (map ?doc [0..<length ?s]) = map ?doc ?I"
    by (simp add: query4_positive_def filter_map comp_def query4_add_fields_nth)
  have ent: "\<forall>d\<in>set (map ?doc ?I). Entity (q4_doc d) = ''Canada''"
    by (auto simp: query4_add_fields_def canada_after_2015_entity)
  have diffs: "map generation_difference (map ?doc ?I) = map (increase ?s) ?I"
    by (simp add: comp_def query4_add_fields_nth)
  have A: "query4_argmax (map ?doc ?I)
      = map ?doc (filter (\<lambda>i. increase ?s i = mongo_max (map (increase ?s) ?I)) ?I)"
    unfolding query4_argmax_constant [OF ent] diffs
    by (simp add: filter_map comp_def query4_add_fields_nth)
  have F: "filter (\<lambda>i. increase ?s i = mongo_max (map (increase ?s) ?I)) ?I
      = filter (largest_increase ?s) [0..<length ?s]"
    unfolding filter_filter by (rule filter_cong [OF refl]) (simp add: positive_largest)
  have R: "map query4_project (map ?doc (filter (largest_increase ?s) [0..<length ?s]))
      = map (increase_row ?s) (filter (largest_increase ?s) [0..<length ?s])"
    by (simp add: comp_def query4_project_def increase_row_def query4_add_fields_def
        query4_add_fields_nth [unfolded query4_add_fields_def, simplified]
        canada_after_2015_entity)
  show ?thesis
    unfolding query4_def D P A F R ..
qed

text \<open>
  What query 4 returns. Step 1 keeps the rows of the entity Canada after 2015, so query 4
  returns rows of Canada only. Among these rows in the order of their years it returns, in
  that order, one row for every position whose increase over the row before it is strictly
  positive and largest; \<open>generation_difference\<close> is that increase, the value of the row
  minus the value of the row before it, and \<open>total_nuclear_generation\<close> the value of the
  row. Positions that tie for the largest increase are all returned.
\<close>

theorem query4_largest_increase:
  "query4 db = map (increase_row (canada_after_2015 db))
                 (filter (largest_increase (canada_after_2015 db))
                    [0..<length (canada_after_2015 db)])
   \<and> (r \<in> set (query4 db) \<longleftrightarrow>
        (\<exists>i. 0 < i \<and> i < length (canada_after_2015 db)
             \<and> largest_increase (canada_after_2015 db) i
             \<and> r = increase_row (canada_after_2015 db) i))
   \<and> (\<forall>r\<in>set (query4 db).
         q4_Entity r = ''Canada'' \<and> (\<exists>d. q4_generation_difference r = Some d \<and> 0 < d))"
proof -
  let ?s = "canada_after_2015 db"
  have l: "query4 db = map (increase_row ?s) (filter (largest_increase ?s) [0..<length ?s])"
    by (rule query4_list)
  have z: "\<not> largest_increase ?s 0"
    by (simp add: largest_increase_def increase_def)
  have m: "r \<in> set (query4 db) \<longleftrightarrow>
        (\<exists>i. 0 < i \<and> i < length ?s \<and> largest_increase ?s i \<and> r = increase_row ?s i)"
  proof
    assume "r \<in> set (query4 db)"
    then obtain i where i: "i < length ?s" "largest_increase ?s i" "r = increase_row ?s i"
      unfolding l by auto
    with z have "0 < i"
      by (cases i) simp_all
    with i show "\<exists>i. 0 < i \<and> i < length ?s \<and> largest_increase ?s i \<and> r = increase_row ?s i"
      by blast
  next
    assume "\<exists>i. 0 < i \<and> i < length ?s \<and> largest_increase ?s i \<and> r = increase_row ?s i"
    then show "r \<in> set (query4 db)"
      unfolding l by auto
  qed
  have p: "\<forall>r\<in>set (query4 db).
         q4_Entity r = ''Canada'' \<and> (\<exists>d. q4_generation_difference r = Some d \<and> 0 < d)"
    unfolding l by (auto simp: increase_row_def largest_increase_def)
  from l m p show ?thesis
    by blast
qed

theorem query4_largest_increase_witness:
  "map Year (canada_after_2015 canada_with_tie) = [2016, 2017, 2018, 2019, 2020]
   \<and> map (increase (canada_after_2015 canada_with_tie)) [0, 1, 2, 3, 4]
       = [None, Some 10, Some 5, Some 10, Some (- 5)]
   \<and> query4 canada_with_tie
       = [\<lparr> q4_Entity = ''Canada'', q4_Year = 2017, q4_total_nuclear_generation = Some 20,
            q4_generation_difference = Some 10 \<rparr>,
          \<lparr> q4_Entity = ''Canada'', q4_Year = 2019, q4_total_nuclear_generation = Some 35,
            q4_generation_difference = Some 10 \<rparr>]
   \<and> query4 canada_with_tie
       = map (increase_row (canada_after_2015 canada_with_tie))
           (filter (largest_increase (canada_after_2015 canada_with_tie))
              [0..<length (canada_after_2015 canada_with_tie)])
   \<and> q4_Entity (hd (query4 canada_with_tie)) = ''Canada''"
proof -
  have s: "canada_after_2015 canada_with_tie
      = [generation_row ''Canada'' 2016 (Some 10) None,
         generation_row ''Canada'' 2017 (Some 20) None,
         generation_row ''Canada'' 2018 (Some 25) None,
         generation_row ''Canada'' 2019 (Some 35) None,
         generation_row ''Canada'' 2020 (Some 30) None]"
    by (simp add: canada_after_2015_def canada_with_tie_def generation_row_def)
  have y: "map Year (canada_after_2015 canada_with_tie) = [2016, 2017, 2018, 2019, 2020]"
    unfolding s by (simp add: generation_row_def)
  have i: "map (increase (canada_after_2015 canada_with_tie)) [0, 1, 2, 3, 4]
       = [None, Some 10, Some 5, Some 10, Some (- 5)]"
    unfolding s by (simp add: increase_def generation_row_def)
  have q: "query4 canada_with_tie
       = [\<lparr> q4_Entity = ''Canada'', q4_Year = 2017, q4_total_nuclear_generation = Some 20,
            q4_generation_difference = Some 10 \<rparr>,
          \<lparr> q4_Entity = ''Canada'', q4_Year = 2019, q4_total_nuclear_generation = Some 35,
            q4_generation_difference = Some 10 \<rparr>]"
    by code_simp
  then have h: "hd (query4 canada_with_tie) \<in> set (query4 canada_with_tie)"
    by simp
  from query4_largest_increase [of canada_with_tie] h y i q show ?thesis
    by blast
qed

text \<open>
  Claim C3, at two failing inputs. France rises by 10 from 2016 to 2017, and query 4
  returns nothing: step 1 keeps the entity Canada only, although the pipeline partitions
  and groups by entity and the comment above the query reports the increases of China,
  France and Japan. Canada with rows for 2016 and 2019 and none between gets the
  difference 30 for 2019, the value of 2019 minus the value of 2016: \<open>$shift\<close> takes the
  document before, whatever its year, where the stage is commented as computing the
  previous year's generation.
\<close>

theorem query4_failing_inputs:
  "query4 [generation_row ''France'' 2016 (Some 10) None,
           generation_row ''France'' 2017 (Some 20) None] = []
   \<and> query4 [generation_row ''Canada'' 2016 (Some 10) None,
               generation_row ''Canada'' 2019 (Some 40) None]
       = [\<lparr> q4_Entity = ''Canada'', q4_Year = 2019, q4_total_nuclear_generation = Some 40,
            q4_generation_difference = Some 30 \<rparr>]"
  by code_simp

subsection \<open>Query 9: the guarded conversions\<close>






lemma production_unmatched_null:
  "\<not> matches_digits_dots str \<Longrightarrow> production_million_lbs str = Inr None"
  by (simp add: production_million_lbs_def)

lemma employees_unmatched_null:
  "\<not> matches_digits str \<Longrightarrow> employees str = Inr None"
  by (simp add: employees_def)

lemma lookup_unwind_unmatched:
  "\<forall>r\<in>set right. ff r \<noteq> lf l \<Longrightarrow> lookup_unwind lf ff (ls @ l # ls') right
      = lookup_unwind lf ff (ls @ ls') right"
  by (simp add: lookup_unwind_def filter_empty_conv [THEN iffD2])

text \<open>
  Claim C4, at a failing input. The text \<open>1.2.3\<close> (as \<open>.\<close> or \<open>1..2\<close> would) consists of
  digits and dots, so it passes the pattern that guards \<open>$toDouble\<close>; it is no number, the
  conversion fails, and query 9 fails with it. Likewise eleven digits pass the pattern that
  guards \<open>$toInt\<close> and do not fit the integer. (A text that fails its pattern does give
  null, and a production row without a partner year is dropped: the three lemmas above.)
\<close>

theorem query9_conversion_failure:
  "matches_digits_dots ''1.2.3''
   \<and> toDouble ''1.2.3'' = Inl ConversionFailure
   \<and> query9 [production_2000 ''1.2.3'' ''1136''] stats_2000 = Inl ConversionFailure
   \<and> matches_digits ''99999999999''
   \<and> query9 [production_2000 ''4.5'' ''99999999999''] stats_2000 = Inl ConversionFailure"
  by (simp add: query9_def lookup_unwind_def query9_project_def production_2000_def stats_2000_def
      production_million_lbs_def matches_digits_dots_def matches_digits_def anchored_plus_def
      is_digit_def toDouble_def toInt_def digits_value_def employees_def)




subsection \<open>Queries 1, 2 and 5: the sums of the capacity\<close>

lemma mongo_sum_capacity: "mongo_sum (map capacity_mw (filter P db)) = capacity_sum P db"
  by (simp add: mongo_sum_map capacity_sum_def)

lemma capacity_sum_cong: "(\<And>p. P p = Q p) \<Longrightarrow> capacity_sum P db = capacity_sum Q db"
  by presburger

lemma mongo_sum_pointwise:
  "mongo_sum (map f ys) = (\<Sum>y\<leftarrow>ys. case f y of None \<Rightarrow> 0 | Some c \<Rightarrow> c)"
proof (induction ys)
  case Nil
  show ?case by simp
next
  case (Cons y ys)
  then show ?case by (cases "f y") simp_all
qed

lemma query1_group_member:
  assumes "r \<in> set (query1_group db)"
  shows "q1_id r \<in> primary_fuel ` set db
       \<and> q1_number_of_plants r = length (filter (\<lambda>p. primary_fuel p = q1_id r) db)
       \<and> q1_total_capacity_mw r = capacity_sum (\<lambda>p. primary_fuel p = q1_id r) db"
proof -
  from assms obtain g where g: "g \<in> set (group_by primary_fuel db)"
    and r: "r = \<lparr> q1_id = fst g, q1_number_of_plants = length (snd g),
                  q1_total_capacity_mw = mongo_sum (map capacity_mw (snd g)) \<rparr>"
    unfolding query1_group_def by auto
  from g have k: "fst g \<in> primary_fuel ` set db"
    and s: "snd g = filter (\<lambda>p. primary_fuel p = fst g) db"
    unfolding group_by_member by blast+
  show ?thesis
    unfolding r s using k by (simp add: mongo_sum_capacity)
qed

lemma query1_member:
  assumes "r \<in> set (query1 db)"
  shows "q1_total_capacity_mw r = mround (capacity_sum (\<lambda>p. primary_fuel p = q1_id r) db) 1"
proof -
  from assms obtain r' where r': "r' \<in> set (query1_group db)" and r: "r = query1_project r'"
    unfolding query1_def set_sort_desc by auto
  from query1_group_member [OF r'] show ?thesis
    unfolding r by (simp add: query1_project_def)
qed

lemma query2_group_member:
  assumes "r \<in> set (query2_group db)"
  shows "q2_total_nuclear_capacity_mw r
          = capacity_sum (\<lambda>p. primary_fuel p = ''Nuclear'' \<and> country_long p = q2_id r) db"
proof -
  from assms obtain g where g: "g \<in> set (group_by country_long (query2_match db))"
    and r: "r = \<lparr> q2_id = fst g,
                  q2_total_nuclear_capacity_mw = mongo_sum (map capacity_mw (snd g)) \<rparr>"
    unfolding query2_group_def by auto
  from g have "snd g = filter (\<lambda>p. country_long p = fst g) (query2_match db)"
    unfolding group_by_member by blast
  then have s: "snd g = filter (\<lambda>p. primary_fuel p = ''Nuclear'' \<and> country_long p = fst g) db"
    by (simp add: query2_match_def)
  show ?thesis
    unfolding r s by (simp add: mongo_sum_capacity)
qed

lemma query2_member:
  assumes "r \<in> set (query2 db)"
  shows "q2_total_nuclear_capacity_mw r
          = mround (capacity_sum (\<lambda>p. primary_fuel p = ''Nuclear'' \<and> country_long p = q2_id r) db) 2"
proof -
  from assms have "r \<in> set (sort_desc q2_total_nuclear_capacity_mw
                               (map query2_project (query2_group db)))"
    unfolding query2_def by (rule in_set_takeD)
  then obtain r' where r': "r' \<in> set (query2_group db)" and r: "r = query2_project r'"
    unfolding set_sort_desc by auto
  from query2_group_member [OF r'] show ?thesis
    unfolding r by (simp add: query2_project_def)
qed

lemma query5_member:
  assumes "r \<in> set (query5 db)"
  shows "q5_total_capacity_mw r
          = capacity_sum (\<lambda>p. primary_fuel p = ''Nuclear'' \<and> latitude p \<noteq> None \<and> longitude p \<noteq> None
                               \<and> lat_band p = q5_lat_band r \<and> lon_band p = q5_lon_band r) db"
proof -
  let ?key = "\<lambda>p. (lat_band p, lon_band p)"
  from assms obtain g where g: "g \<in> set (group_by ?key (query5_match db))"
    and r: "r = query5_group g"
    unfolding query5_def set_sort_desc by auto
  from g have "snd g = filter (\<lambda>p. ?key p = fst g) (query5_match db)"
    unfolding group_by_member by blast
  then have s: "snd g = filter (\<lambda>p. (primary_fuel p = ''Nuclear'' \<and> latitude p \<noteq> None
                  \<and> longitude p \<noteq> None) \<and> ?key p = fst g) db"
    by (simp add: query5_match_def)
  have "q5_total_capacity_mw r
      = capacity_sum (\<lambda>p. (primary_fuel p = ''Nuclear'' \<and> latitude p \<noteq> None
                  \<and> longitude p \<noteq> None) \<and> ?key p = fst g) db"
    unfolding r query5_group_def s by (simp only: mongo_sum_capacity query5_row.simps)
  also have "\<dots> = capacity_sum (\<lambda>p. primary_fuel p = ''Nuclear'' \<and> latitude p \<noteq> None \<and> longitude p \<noteq> None
                               \<and> lat_band p = q5_lat_band r \<and> lon_band p = q5_lon_band r) db"
    unfolding r query5_group_def by (rule capacity_sum_cong) (cases g, auto)
  finally show ?thesis .
qed

lemma query1_group_total:
  "sum_list (map q1_total_capacity_mw (query1_group db)) = capacity_sum (\<lambda>p. True) db"
proof -
  let ?v = "\<lambda>p. case capacity_mw p of None \<Rightarrow> 0 | Some c \<Rightarrow> c"
  have "sum_list (map q1_total_capacity_mw (query1_group db))
      = (\<Sum>gr\<leftarrow>group_by primary_fuel db. mongo_sum (map capacity_mw (snd gr)))"
    by (simp add: query1_group_def comp_def)
  also have "\<dots> = (\<Sum>p\<leftarrow>db. ?v p)"
    by (rule sum_list_group_by) (rule mongo_sum_pointwise)
  also have "\<dots> = mongo_sum (map capacity_mw (filter (\<lambda>p. True) db))"
    by (simp add: mongo_sum_pointwise)
  finally show ?thesis
    by (simp only: mongo_sum_capacity)
qed

text \<open>
  Claim C5, as the code has it. In each \<open>$group\<close> stage a plant without a capacity adds
  nothing: the sum of a group is the sum of the capacity over the plants of the group that
  have one. Query 5 returns that sum; query 1 returns it rounded to one decimal place and
  query 2 rounded to two. Query 1 has one group per fuel, and the sums of its groups, before
  the rounding, add up to the sum of the capacity over all plants that have one.
\<close>

theorem capacity_sums_skip_null:
  "(\<forall>r\<in>set (query1_group db).
       q1_total_capacity_mw r = capacity_sum (\<lambda>p. primary_fuel p = q1_id r) db)
   \<and> (\<forall>r\<in>set (query1 db).
       q1_total_capacity_mw r = mround (capacity_sum (\<lambda>p. primary_fuel p = q1_id r) db) 1)
   \<and> (\<forall>r\<in>set (query2_group db).
       q2_total_nuclear_capacity_mw r
         = capacity_sum (\<lambda>p. primary_fuel p = ''Nuclear'' \<and> country_long p = q2_id r) db)
   \<and> (\<forall>r\<in>set (query2 db).
       q2_total_nuclear_capacity_mw r
         = mround (capacity_sum (\<lambda>p. primary_fuel p = ''Nuclear'' \<and> country_long p = q2_id r) db) 2)
   \<and> (\<forall>r\<in>set (query5 db).
       q5_total_capacity_mw r
         = capacity_sum (\<lambda>p. primary_fuel p = ''Nuclear'' \<and> latitude p \<noteq> None \<and> longitude p \<noteq> None
                              \<and> lat_band p = q5_lat_band r \<and> lon_band p = q5_lon_band r) db)
   \<and> map q1_id (query1_group db) = remdups (map primary_fuel db)
   \<and> sum_list (map q1_total_capacity_mw (query1_group db)) = capacity_sum (\<lambda>p. True) db"
proof -
  have "map q1_id (query1_group db) = remdups (map primary_fuel db)"
    by (simp add: query1_group_def comp_def group_by_keys [symmetric])
  then show ?thesis
    using query1_group_member [of _ db] query1_member [of _ db] query2_group_member [of _ db]
      query2_member [of _ db] query5_member [of _ db] query1_group_total [of db]
    by blast
qed

theorem capacity_sums_skip_null_witness:
  "query1_group plants_with_null_capacity
     = [\<lparr> q1_id = ''Coal'', q1_number_of_plants = 1, q1_total_capacity_mw = 1 / 25 \<rparr>,
        \<lparr> q1_id = ''Nuclear'', q1_number_of_plants = 3, q1_total_capacity_mw = 115013 / 50 \<rparr>,
        \<lparr> q1_id = ''Gas'', q1_number_of_plants = 1, q1_total_capacity_mw = 0 \<rparr>]
   \<and> query1 plants_with_null_capacity
     = [\<lparr> q1_id = ''Nuclear'', q1_number_of_plants = 3, q1_total_capacity_mw = 23003 / 10 \<rparr>,
        \<lparr> q1_id = ''Coal'', q1_number_of_plants = 1, q1_total_capacity_mw = 0 \<rparr>,
        \<lparr> q1_id = ''Gas'', q1_number_of_plants = 1, q1_total_capacity_mw = 0 \<rparr>]
   \<and> query2 plants_with_null_capacity
     = [\<lparr> q2_id = ''Germany'', q2_total_nuclear_capacity_mw = 1400 \<rparr>,
        \<lparr> q2_id = ''France'', q2_total_nuclear_capacity_mw = 45013 / 50 \<rparr>]
   \<and> map q5_plant_count (query5 plants_with_null_capacity) = [3]
   \<and> map q5_total_capacity_mw (query5 plants_with_null_capacity) = [115013 / 50]
   \<and> capacity_sum (\<lambda>p. primary_fuel p = ''Nuclear'') plants_with_null_capacity = 115013 / 50
   \<and> capacity_sum (\<lambda>p. True) plants_with_null_capacity = 115015 / 50
   \<and> sum_list (map q1_total_capacity_mw (query1_group plants_with_null_capacity))
       = capacity_sum (\<lambda>p. True) plants_with_null_capacity
   \<and> q1_total_capacity_mw (hd (query1 plants_with_null_capacity))
       = mround (capacity_sum (\<lambda>p. primary_fuel p = ''Nuclear'') plants_with_null_capacity) 1
   \<and> q2_total_nuclear_capacity_mw (hd (query2 plants_with_null_capacity))
       = mround (capacity_sum (\<lambda>p. primary_fuel p = ''Nuclear'' \<and> country_long p = ''Germany'')
                   plants_with_null_capacity) 2
   \<and> q5_total_capacity_mw (hd (query5 plants_with_null_capacity))
       = capacity_sum (\<lambda>p. primary_fuel p = ''Nuclear'' \<and> latitude p \<noteq> None \<and> longitude p \<noteq> None
            \<and> lat_band p = q5_lat_band (hd (query5 plants_with_null_capacity))
            \<and> lon_band p = q5_lon_band (hd (query5 plants_with_null_capacity)))
           plants_with_null_capacity"
proof -
  let ?db = plants_with_null_capacity
  have g: "query1_group ?db
     = [\<lparr> q1_id = ''Coal'', q1_number_of_plants = 1, q1_total_capacity_mw = 1 / 25 \<rparr>,
        \<lparr> q1_id = ''Nuclear'', q1_number_of_plants = 3, q1_total_capacity_mw = 115013 / 50 \<rparr>,
        \<lparr> q1_id = ''Gas'', q1_number_of_plants = 1, q1_total_capacity_mw = 0 \<rparr>]"
    by (simp add: query1_group_def group_by_def plants_with_null_capacity_def plant_def)
  have q: "query1 ?db
     = [\<lparr> q1_id = ''Nuclear'', q1_number_of_plants = 3, q1_total_capacity_mw = 23003 / 10 \<rparr>,
        \<lparr> q1_id = ''Coal'', q1_number_of_plants = 1, q1_total_capacity_mw = 0 \<rparr>,
        \<lparr> q1_id = ''Gas'', q1_number_of_plants = 1, q1_total_capacity_mw = 0 \<rparr>]"
    unfolding query1_def g
    by (simp add: query1_project_def sort_desc_def mround_def round_half_even_def Let_def)
  have q2: "query2 ?db
     = [\<lparr> q2_id = ''Germany'', q2_total_nuclear_capacity_mw = 1400 \<rparr>,
        \<lparr> q2_id = ''France'', q2_total_nuclear_capacity_mw = 45013 / 50 \<rparr>]"
    by code_simp
  have c5: "map q5_plant_count (query5 ?db) = [3]"
    by code_simp
  have q5: "map q5_total_capacity_mw (query5 ?db) = [115013 / 50]"
    by code_simp
  have n: "capacity_sum (\<lambda>p. primary_fuel p = ''Nuclear'') ?db = 115013 / 50"
    by (simp add: capacity_sum_def plants_with_null_capacity_def plant_def del: not_None_eq)
  have a: "capacity_sum (\<lambda>p. True) ?db = 115015 / 50"
    by (simp add: capacity_sum_def plants_with_null_capacity_def plant_def del: not_None_eq)
  have m1: "hd (query1 ?db) \<in> set (query1 ?db)" and i1: "q1_id (hd (query1 ?db)) = ''Nuclear''"
    unfolding q by simp_all
  have m2: "hd (query2 ?db) \<in> set (query2 ?db)" and i2: "q2_id (hd (query2 ?db)) = ''Germany''"
    unfolding q2 by simp_all
  from q5 have "query5 ?db \<noteq> []"
    by auto
  then have m5: "hd (query5 ?db) \<in> set (query5 ?db)"
    by simp
  note inst = capacity_sums_skip_null [of ?db]
  from inst have t: "sum_list (map q1_total_capacity_mw (query1_group ?db)) = capacity_sum (\<lambda>p. True) ?db"
    by blast
  from inst m1 have "q1_total_capacity_mw (hd (query1 ?db))
       = mround (capacity_sum (\<lambda>p. primary_fuel p = q1_id (hd (query1 ?db))) ?db) 1"
    by blast
  then have h1: "q1_total_capacity_mw (hd (query1 ?db))
       = mround (capacity_sum (\<lambda>p. primary_fuel p = ''Nuclear'') ?db) 1"
    unfolding i1 .
  from inst m2 have "q2_total_nuclear_capacity_mw (hd (query2 ?db))
       = mround (capacity_sum (\<lambda>p. primary_fuel p = ''Nuclear''
                    \<and> country_long p = q2_id (hd (query2 ?db))) ?db) 2"
    by blast
  then have h2: "q2_total_nuclear_capacity_mw (hd (query2 ?db))
       = mround (capacity_sum (\<lambda>p. primary_fuel p = ''Nuclear'' \<and> country_long p = ''Germany'')
                   ?db) 2"
    unfolding i2 .
  from inst m5 have h5: "q5_total_capacity_mw (hd (query5 ?db))
       = capacity_sum (\<lambda>p. primary_fuel p = ''Nuclear'' \<and> latitude p \<noteq> None \<and> longitude p \<noteq> None
            \<and> lat_band p = q5_lat_band (hd (query5 ?db))
            \<and> lon_band p = q5_lon_band (hd (query5 ?db))) ?db"
    by blast
  from g q q2 c5 q5 n a t h1 h2 h5 show ?thesis
    by blast
qed

text \<open>
  Claim C5 as stated fails on the totals that query 1 returns: they are rounded, so a
  total need not equal the sum of its group, and the totals need not add up to the sum
  over the collection. Two plants of 0.04 MW with different fuels give the totals 0 and 0.
\<close>

theorem query1_totals_are_rounded:
  "query1 [plant ''FRA'' ''France'' ''Coal'' (Some (1 / 25)) None None,
           plant ''FRA'' ''France'' ''Gas'' (Some (1 / 25)) None None]
     = [\<lparr> q1_id = ''Coal'', q1_number_of_plants = 1, q1_total_capacity_mw = 0 \<rparr>,
        \<lparr> q1_id = ''Gas'', q1_number_of_plants = 1, q1_total_capacity_mw = 0 \<rparr>]
   \<and> capacity_sum (\<lambda>p. primary_fuel p = ''Coal'')
        [plant ''FRA'' ''France'' ''Coal'' (Some (1 / 25)) None None,
         plant ''FRA'' ''France'' ''Gas'' (Some (1 / 25)) None None] = 1 / 25
   \<and> capacity_sum (\<lambda>p. True)
        [plant ''FRA'' ''France'' ''Coal'' (Some (1 / 25)) None None,
         plant ''FRA'' ''France'' ''Gas'' (Some (1 / 25)) None None] = 2 / 25
   \<and> sum_list (map q1_total_capacity_mw
        (query1 [plant ''FRA'' ''France'' ''Coal'' (Some (1 / 25)) None None,
                 plant ''FRA'' ''France'' ''Gas'' (Some (1 / 25)) None None])) = 0"
  by (simp add: query1_def query1_group_def group_by_def plant_def query1_project_def
      sort_desc_def mround_def round_half_even_def Let_def capacity_sum_def del: not_None_eq)

subsection \<open>Query 3: the threshold and the rows above it\<close>

lemma mongo_avg_average:
  "mongo_avg vs = (if numeric_values vs = [] then None else Some (average (numeric_values vs)))"
  by (simp add: mongo_avg_def average_def split: list.splits)

lemma numeric_values_2023:
  "numeric_values (map share_of_electricity_pct (filter P (filter (\<lambda>r. Year r = 2023) db)))
     = shares_2023 P db"
  by (simp add: numeric_values_map shares_2023_def)

lemma mongo_avg_2023:
  "mongo_avg (map share_of_electricity_pct (filter P (filter (\<lambda>r. Year r = 2023) db)))
     = (if shares_2023 P db = [] then None else Some (average (shares_2023 P db)))"
  by (simp only: mongo_avg_average numeric_values_2023)

lemma globalAvg_Inr:
  assumes "globalAvg db = Inr t"
  shows "t = (if shares_2023 (\<lambda>r. True) db = [] then None
              else Some (average (shares_2023 (\<lambda>r. True) db)))"
proof -
  from assms have "t = mongo_avg (map share_of_electricity_pct (filter (\<lambda>r. Year r = 2023) db))"
    by (auto simp: globalAvg_def split: list.splits)
  also have "\<dots> = mongo_avg (map share_of_electricity_pct
                       (filter (\<lambda>r. True) (filter (\<lambda>r. Year r = 2023) db)))"
    by simp
  finally show ?thesis
    by (simp only: mongo_avg_2023)
qed

lemma globalAvg_Inl: "globalAvg db = Inl e \<longleftrightarrow> e = ShellTypeError \<and> (\<forall>r\<in>set db. Year r \<noteq> 2023)"
proof -
  have "globalAvg db = Inl e \<longleftrightarrow> e = ShellTypeError \<and> filter (\<lambda>r. Year r = 2023) db = []"
    by (auto simp: globalAvg_def split: list.splits)
  then show ?thesis
    by (simp add: filter_empty_conv)
qed

lemma query3_group_member:
  assumes "r \<in> set (query3_group db)"
  shows "q3_avg_nuclear_share r
          = (if shares_2023 (\<lambda>x. Entity x = q3_id r) db = [] then None
             else Some (average (shares_2023 (\<lambda>x. Entity x = q3_id r) db)))"
proof -
  let ?xs = "filter (\<lambda>r. Year r = 2023) db"
  from assms obtain g where g: "g \<in> set (group_by Entity ?xs)"
    and r: "r = \<lparr> q3_id = fst g,
                  q3_avg_nuclear_share = mongo_avg (map share_of_electricity_pct (snd g)) \<rparr>"
    unfolding query3_group_def by auto
  from g have s: "snd g = filter (\<lambda>x. Entity x = fst g) ?xs"
    unfolding group_by_member by blast
  show ?thesis
    unfolding r s by (simp only: mongo_avg_2023 query3_row.simps)
qed

lemma query3_rows:
  assumes "r \<in> set (sort_desc q3_avg_nuclear_share
                      (map query3_project (query3_match t (query3_group db))))"
  shows "\<exists>th. t = Some th
           \<and> shares_2023 (\<lambda>x. Entity x = q3_id r) db \<noteq> []
           \<and> th < average (shares_2023 (\<lambda>x. Entity x = q3_id r) db)
           \<and> q3_avg_nuclear_share r
               = Some (mround (average (shares_2023 (\<lambda>x. Entity x = q3_id r) db)) 2)"
proof -
  from assms obtain r' where m: "match_gt (q3_avg_nuclear_share r') t"
    and r': "r' \<in> set (query3_group db)" and r: "r = query3_project r'"
    unfolding set_sort_desc query3_match_def by auto
  from m obtain a th where a: "q3_avg_nuclear_share r' = Some a" and t: "t = Some th" and lt: "th < a"
    by (cases "q3_avg_nuclear_share r'"; cases t) auto
  have i: "q3_id r = q3_id r'"
    unfolding r by (simp add: query3_project_def)
  from query3_group_member [OF r'] a
  have "shares_2023 (\<lambda>x. Entity x = q3_id r') db \<noteq> []"
    and "a = average (shares_2023 (\<lambda>x. Entity x = q3_id r') db)"
    by (auto split: if_splits)
  moreover have "q3_avg_nuclear_share r = Some (mround a 2)"
    unfolding r by (simp add: query3_project_def a)
  ultimately show ?thesis
    using t lt i by simp
qed

text \<open>
  Claim C6, as the code has it. When the script gets past step 1 (there is a row of 2023),
  \<open>globalAvg\<close> is the average of the shares of all rows of 2023 that have one (null when
  none has), and the query returns rows only for entities whose own average over 2023,
  before any rounding, is strictly greater than that threshold. The \<open>avg_nuclear_share\<close>
  of a row is this average rounded to two decimal places.
\<close>

theorem query3_threshold:
  assumes "globalAvg db = Inr t"
  shows "t = (if shares_2023 (\<lambda>r. True) db = [] then None
              else Some (average (shares_2023 (\<lambda>r. True) db)))
       \<and> (\<exists>rows. query3 db = Inr rows
            \<and> (\<forall>r\<in>set rows. \<exists>th. t = Some th
                  \<and> shares_2023 (\<lambda>x. Entity x = q3_id r) db \<noteq> []
                  \<and> th < average (shares_2023 (\<lambda>x. Entity x = q3_id r) db)
                  \<and> q3_avg_nuclear_share r
                      = Some (mround (average (shares_2023 (\<lambda>x. Entity x = q3_id r) db)) 2)))"
proof -
  have "query3 db = Inr (sort_desc q3_avg_nuclear_share
                          (map query3_project (query3_match t (query3_group db))))"
    by (simp add: query3_def assms)
  then show ?thesis
    using globalAvg_Inr [OF assms] query3_rows [of _ t db] by blast
qed

theorem query3_threshold_witness:
  "globalAvg shares_near_average = Inr (Some (10001 / 1000))
   \<and> shares_2023 (\<lambda>r. True) shares_near_average = [10004 / 1000, 9998 / 1000]
   \<and> Some (10001 / 1000) = (if shares_2023 (\<lambda>r. True) shares_near_average = [] then None
              else Some (average (shares_2023 (\<lambda>r. True) shares_near_average)))
   \<and> query3 shares_near_average
       = Inr [\<lparr> q3_id = ''Finland'', q3_avg_nuclear_share = Some 10 \<rparr>]
   \<and> average (shares_2023 (\<lambda>x. Entity x = ''Finland'') shares_near_average) = 10004 / 1000"
proof -
  have g: "globalAvg shares_near_average = Inr (Some (10001 / 1000))"
    by (simp add: globalAvg_def shares_near_average_def generation_row_def mongo_avg_def)
  have s: "shares_2023 (\<lambda>r. True) shares_near_average = [10004 / 1000, 9998 / 1000]"
    by (simp add: shares_2023_def shares_near_average_def generation_row_def del: not_None_eq)
  have q: "query3 shares_near_average
       = Inr [\<lparr> q3_id = ''Finland'', q3_avg_nuclear_share = Some 10 \<rparr>]"
    by (simp add: query3_def globalAvg_def shares_near_average_def generation_row_def mongo_avg_def
        query3_group_def group_by_def query3_match_def query3_project_def sort_desc_def
        mround_def round_half_even_def Let_def)
  have a: "average (shares_2023 (\<lambda>x. Entity x = ''Finland'') shares_near_average) = 10004 / 1000"
    by (simp add: average_def shares_2023_def shares_near_average_def generation_row_def
        del: not_None_eq)
  from query3_threshold [OF g] g s q a show ?thesis
    by blast
qed

text \<open>
  Claim C6 as stated fails for the value the row carries: the comparison is made before
  the rounding. With the shares 10.004 and 9.998 the threshold is 10.001; the first entity
  passes with 10.004 and is returned with 10.00, which is not greater than the threshold.
\<close>

theorem query3_rounded_share_below_threshold:
  "globalAvg [generation_row ''Finland'' 2023 (Some 33) (Some (10004 / 1000)),
              generation_row ''Sweden'' 2023 (Some 47) (Some (9998 / 1000))]
     = Inr (Some (10001 / 1000))
   \<and> query3 [generation_row ''Finland'' 2023 (Some 33) (Some (10004 / 1000)),
             generation_row ''Sweden'' 2023 (Some 47) (Some (9998 / 1000))]
     = Inr [\<lparr> q3_id = ''Finland'', q3_avg_nuclear_share = Some 10 \<rparr>]
   \<and> \<not> match_gt (Some 10) (Some (10001 / 1000))"
  by (simp add: query3_def globalAvg_def generation_row_def mongo_avg_def
      query3_group_def group_by_def query3_match_def query3_project_def sort_desc_def
      mround_def round_half_even_def Let_def)

subsection \<open>Query 10: rounding at the projection only\<close>

lemma lookup_unwind_member:
  "d \<in> set (lookup_unwind lf ff left right)
     \<longleftrightarrow> fst d \<in> set left \<and> snd d \<in> set right \<and> ff (snd d) = lf (fst d)"
  by (cases d) (auto simp: lookup_unwind_def)

lemma query10_project_row:
  assumes "nuclear_generation_mwh (fst d) = Some g" and "total_purchased (snd d) = Some c"
  shows "query10_project d
     = \<lparr> q10_year = YEAR (fst d), q10_nuclear_generation = Some g,
         q10_uranium_needed_pounds = Some (mround (g * (7 / 1000)) 2),
         q10_uranium_price_usd_per_lb = Some c,
         q10_total_uranium_cost_usd = Some (mround (g * (7 / 1000) * c) 2) \<rparr>"
  using assms by (simp add: query10_project_def)

text \<open>
  Claim C7. The rows of query 10 are exactly these: one for each pair of a statistics
  document and a price document of the same year that both have their value, the
  generation \<open>g\<close> and the price \<open>c\<close>; its cost is \<open>g * 0.007 * c\<close> rounded to two decimal
  places once, with the quantity \<open>g * 0.007\<close> unrounded inside the product, and the rounding
  of the quantity to two decimal places is a separate output field.
\<close>

theorem uranium_cost_from_unrounded_quantity:
  "r \<in> set (query10 stats prices) \<longleftrightarrow>
     (\<exists>s\<in>set stats. \<exists>p\<in>set prices. \<exists>g c.
         delivery_year p = YEAR s
       \<and> nuclear_generation_mwh s = Some g
       \<and> total_purchased p = Some c
       \<and> r = \<lparr> q10_year = YEAR s, q10_nuclear_generation = Some g,
               q10_uranium_needed_pounds = Some (mround (g * (7 / 1000)) 2),
               q10_uranium_price_usd_per_lb = Some c,
               q10_total_uranium_cost_usd = Some (mround (g * (7 / 1000) * c) 2) \<rparr>)"
proof
  assume "r \<in> set (query10 stats prices)"
  then obtain d where d: "d \<in> set (query10_match (lookup_unwind YEAR delivery_year stats prices))"
    and r: "r = query10_project d"
    by (auto simp: query10_def set_sort_desc)
  from d have j: "fst d \<in> set stats" "snd d \<in> set prices" "delivery_year (snd d) = YEAR (fst d)"
    by (simp_all add: query10_match_def lookup_unwind_member)
  from d obtain g c where v: "nuclear_generation_mwh (fst d) = Some g" "total_purchased (snd d) = Some c"
    by (auto simp: query10_match_def)
  from query10_project_row [OF v] j v r
  show "\<exists>s\<in>set stats. \<exists>p\<in>set prices. \<exists>g c.
         delivery_year p = YEAR s
       \<and> nuclear_generation_mwh s = Some g
       \<and> total_purchased p = Some c
       \<and> r = \<lparr> q10_year = YEAR s, q10_nuclear_generation = Some g,
               q10_uranium_needed_pounds = Some (mround (g * (7 / 1000)) 2),
               q10_uranium_price_usd_per_lb = Some c,
               q10_total_uranium_cost_usd = Some (mround (g * (7 / 1000) * c) 2) \<rparr>"
    by blast
next
  assume "\<exists>s\<in>set stats. \<exists>p\<in>set prices. \<exists>g c.
         delivery_year p = YEAR s
       \<and> nuclear_generation_mwh s = Some g
       \<and> total_purchased p = Some c
       \<and> r = \<lparr> q10_year = YEAR s, q10_nuclear_generation = Some g,
               q10_uranium_needed_pounds = Some (mround (g * (7 / 1000)) 2),
               q10_uranium_price_usd_per_lb = Some c,
               q10_total_uranium_cost_usd = Some (mround (g * (7 / 1000) * c) 2) \<rparr>"
  then obtain s p g c where s: "s \<in> set stats" and p: "p \<in> set prices"
    and y: "delivery_year p = YEAR s"
    and v: "nuclear_generation_mwh s = Some g" "total_purchased p = Some c"
    and r: "r = \<lparr> q10_year = YEAR s, q10_nuclear_generation = Some g,
               q10_uranium_needed_pounds = Some (mround (g * (7 / 1000)) 2),
               q10_uranium_price_usd_per_lb = Some c,
               q10_total_uranium_cost_usd = Some (mround (g * (7 / 1000) * c) 2) \<rparr>"
    by blast
  from s p y have "(s, p) \<in> set (lookup_unwind YEAR delivery_year stats prices)"
    by (simp add: lookup_unwind_member)
  with v have "(s, p) \<in> set (query10_match (lookup_unwind YEAR delivery_year stats prices))"
    by (simp add: query10_match_def)
  then have "query10_project (s, p) \<in> set (query10 stats prices)"
    by (simp add: query10_def set_sort_desc)
  moreover have "query10_project (s, p) = r"
    unfolding r using query10_project_row [of "(s, p)" g c] v by simp
  ultimately show "r \<in> set (query10 stats prices)"
    by simp
qed

text \<open>On one MWh at a price of 100 the cost is 0.70; from the rounded quantity 0.01 it
  would have been 1.00.\<close>

theorem uranium_cost_from_unrounded_quantity_witness:
  "query10 stats_three_years prices_four_years
     = [\<lparr> q10_year = 2001, q10_nuclear_generation = Some 1,
          q10_uranium_needed_pounds = Some (1 / 100), q10_uranium_price_usd_per_lb = Some 100,
          q10_total_uranium_cost_usd = Some (7 / 10) \<rparr>,
        \<lparr> q10_year = 2000, q10_nuclear_generation = Some 1000,
          q10_uranium_needed_pounds = Some 7, q10_uranium_price_usd_per_lb = Some 100,
          q10_total_uranium_cost_usd = Some 700 \<rparr>]
   \<and> \<lparr> q10_year = 2001, q10_nuclear_generation = Some 1,
        q10_uranium_needed_pounds = Some (mround (1 * (7 / 1000)) 2),
        q10_uranium_price_usd_per_lb = Some 100,
        q10_total_uranium_cost_usd = Some (mround (1 * (7 / 1000) * 100) 2) \<rparr>
       \<in> set (query10 stats_three_years prices_four_years)
   \<and> mround (1 * (7 / 1000) * 100) 2 = 7 / 10
   \<and> mround (mround (1 * (7 / 1000)) 2 * 100) 2 = 1"
proof -
  have q: "query10 stats_three_years prices_four_years
     = [\<lparr> q10_year = 2001, q10_nuclear_generation = Some 1,
          q10_uranium_needed_pounds = Some (1 / 100), q10_uranium_price_usd_per_lb = Some 100,
          q10_total_uranium_cost_usd = Some (7 / 10) \<rparr>,
        \<lparr> q10_year = 2000, q10_nuclear_generation = Some 1000,
          q10_uranium_needed_pounds = Some 7, q10_uranium_price_usd_per_lb = Some 100,
          q10_total_uranium_cost_usd = Some 700 \<rparr>]"
    by (simp add: query10_def lookup_unwind_def query10_match_def query10_project_def
        stats_three_years_def prices_four_years_def sort_desc_def mround_def round_half_even_def
        Let_def)
  have a: "mround (1 * (7 / 1000) * 100) 2 = 7 / 10"
    by (simp add: mround_def round_half_even_def Let_def)
  have b: "mround (mround (1 * (7 / 1000)) 2 * 100) 2 = 1"
    by (simp add: mround_def round_half_even_def Let_def)
  have s: "\<lparr> YEAR = 2001, nuclear_generation_mwh = Some 1 \<rparr> \<in> set stats_three_years"
    by (simp add: stats_three_years_def)
  have p: "\<lparr> delivery_year = 2001, total_purchased = Some 100 \<rparr> \<in> set prices_four_years"
    by (simp add: prices_four_years_def)
  have "\<exists>s\<in>set stats_three_years. \<exists>p\<in>set prices_four_years. \<exists>g c.
         delivery_year p = YEAR s
       \<and> nuclear_generation_mwh s = Some g
       \<and> total_purchased p = Some c
       \<and> \<lparr> q10_year = 2001, q10_nuclear_generation = Some 1,
        q10_uranium_needed_pounds = Some (mround (1 * (7 / 1000)) 2),
        q10_uranium_price_usd_per_lb = Some 100,
        q10_total_uranium_cost_usd = Some (mround (1 * (7 / 1000) * 100) 2) \<rparr>
          = \<lparr> q10_year = YEAR s, q10_nuclear_generation = Some g,
               q10_uranium_needed_pounds = Some (mround (g * (7 / 1000)) 2),
               q10_uranium_price_usd_per_lb = Some c,
               q10_total_uranium_cost_usd = Some (mround (g * (7 / 1000) * c) 2) \<rparr>"
    by (rule bexI [OF _ s], rule bexI [OF _ p]) simp
  then have m: "\<lparr> q10_year = 2001, q10_nuclear_generation = Some 1,
        q10_uranium_needed_pounds = Some (mround (1 * (7 / 1000)) 2),
        q10_uranium_price_usd_per_lb = Some 100,
        q10_total_uranium_cost_usd = Some (mround (1 * (7 / 1000) * 100) 2) \<rparr>
       \<in> set (query10 stats_three_years prices_four_years)"
    by (simp only: uranium_cost_from_unrounded_quantity)
  from q m a b show ?thesis
    by (intro conjI)
qed

subsection \<open>Query 5: the bands\<close>























end
